theory Spec2Isabelle
  imports Complex_Main
begin

section \<open>Conventions of the embedding\<close>

text \<open>
  The development embeds the control utilities (\<^verbatim>\<open>controlUtils.js\<close>), the OSCAL service
  (\<^verbatim>\<open>oscalService.js\<close>) and the SSP service (\<^verbatim>\<open>sspService.js\<close>) of the NIST 800-53
  OSCAL server.

  \<^item> JavaScript strings are \<^typ>\<open>string\<close>; the text handled here is ASCII, and
    \<^verbatim>\<open>toUpperCase\<close>, \<^verbatim>\<open>toLowerCase\<close> and the class \<^verbatim>\<open>\s\<close> are given on ASCII.
  \<^item> A thrown \<^verbatim>\<open>Error\<close> is a value of the type \<open>error\<close> below, one constructor for
    each message of the source; a function that may throw returns \<open>error + 'a\<close>.
  \<^item> The numbers of a control identifier are naturals. The source holds them in
    JavaScript Numbers, which are exact up to \<open>2^53 - 1\<close>.
  \<^item> Time stamps and fresh UUIDs are arguments of the operations that draw them.
\<close>

datatype error =
    ControlIdRequired
  | BothControlIdsRequired
  | InvalidControlIdFormat string
  | InvalidSecurityLevel string
  | InvalidImplementationStatus string
  | SSPNotFound string
  | ControlImplementationNotFound string
  | ProfilesDirectoryNotFound string
  | ReaddirFailed string
  | NoProfileJsonFiles string
  | NoSecurityLevelsIdentified
  | SecurityLevelNotFound string string
  | NoPathFound string string
  | ReadFileFailed string
  | JsonSyntaxError string
  | NoControlsFound string

section \<open>Characters and decimal numbers\<close>

definition isUpperAZ :: "char \<Rightarrow> bool" where
  "isUpperAZ c = (65 \<le> (of_char c :: nat) \<and> (of_char c :: nat) \<le> 90)"

definition isLowerAZ :: "char \<Rightarrow> bool" where
  "isLowerAZ c = (97 \<le> (of_char c :: nat) \<and> (of_char c :: nat) \<le> 122)"

definition isDigit :: "char \<Rightarrow> bool" where
  "isDigit c = (48 \<le> (of_char c :: nat) \<and> (of_char c :: nat) \<le> 57)"

text \<open>The class \<^verbatim>\<open>\s\<close> on ASCII: tab, line feed, vertical tab, form feed, carriage
  return and space.\<close>

definition isSpace :: "char \<Rightarrow> bool" where
  "isSpace c = ((9 \<le> (of_char c :: nat) \<and> (of_char c :: nat) \<le> 13) \<or> (of_char c :: nat) = 32)"

definition toUpperChar :: "char \<Rightarrow> char" where
  "toUpperChar c =
     (if isLowerAZ c then ''ABCDEFGHIJKLMNOPQRSTUVWXYZ'' ! ((of_char c :: nat) - 97) else c)"

definition toLowerChar :: "char \<Rightarrow> char" where
  "toLowerChar c =
     (if isUpperAZ c then ''abcdefghijklmnopqrstuvwxyz'' ! ((of_char c :: nat) - 65) else c)"

definition toUpperCase :: "string \<Rightarrow> string" where
  "toUpperCase s = map toUpperChar s"

definition toLowerCase :: "string \<Rightarrow> string" where
  "toLowerCase s = map toLowerChar s"

definition digitChar :: "nat \<Rightarrow> char" where
  "digitChar d = ''0123456789'' ! d"

definition digitVal :: "char \<Rightarrow> nat" where
  "digitVal c = (of_char c :: nat) - 48"

text \<open>\<^verbatim>\<open>parseInt(s, 10)\<close> on a string of decimal digits (the only strings the
  regular expressions hand to it).\<close>

definition parseInt10 :: "string \<Rightarrow> nat" where
  "parseInt10 s = foldl (\<lambda>acc c. acc * 10 + digitVal c) 0 s"

text \<open>The decimal text a template literal gives for a natural number.\<close>

fun numberToString :: "nat \<Rightarrow> string" where
  "numberToString n =
     (if n < 10 then [digitChar n] else numberToString (n div 10) @ [digitChar (n mod 10)])"

declare numberToString.simps [simp del]

section \<open>Control identifiers (controlUtils.js)\<close>

subsection \<open>The five regular expressions\<close>

text \<open>
  Each matcher returns the capture groups of its expression: the family, the digits of
  the number and, where the expression has a third group, the digits of the enhancement
  (\<open>None\<close> when the group did not take part). The expressions are anchored at both
  ends, and a run \<^verbatim>\<open>[0-9]+\<close> is always followed by a character that is no digit or by
  the end, so the longest run of digits is the only one that can match.
\<close>

text \<open>\<^verbatim>\<open>/^([A-Z]{2})\.([0-9]+)(?:\.([0-9]+))?$/\<close>\<close>

definition dotNotationRegex :: "string \<Rightarrow> (string \<times> string \<times> string option) option" where
  "dotNotationRegex s =
     (case s of
        a # b # c # rest \<Rightarrow>
          if isUpperAZ a \<and> isUpperAZ b \<and> c = CHR ''.'' then
            (let ds = takeWhile isDigit rest; r = dropWhile isDigit rest in
             if ds = [] then None
             else if r = [] then Some ([a, b], ds, None)
             else if hd r = CHR ''.'' \<and> tl r \<noteq> [] \<and> list_all isDigit (tl r)
               then Some ([a, b], ds, Some (tl r))
             else None)
          else None
      | _ \<Rightarrow> None)"

text \<open>\<^verbatim>\<open>/^([A-Z]{2})-([0-9]+)(?:\(([0-9]+)\))?$/\<close>\<close>

definition hyphenParensRegex :: "string \<Rightarrow> (string \<times> string \<times> string option) option" where
  "hyphenParensRegex s =
     (case s of
        a # b # c # rest \<Rightarrow>
          if isUpperAZ a \<and> isUpperAZ b \<and> c = CHR ''-'' then
            (let ds = takeWhile isDigit rest; r = dropWhile isDigit rest in
             if ds = [] then None
             else if r = [] then Some ([a, b], ds, None)
             else if hd r = CHR ''('' \<and> tl r \<noteq> [] \<and> last (tl r) = CHR '')''
                     \<and> butlast (tl r) \<noteq> [] \<and> list_all isDigit (butlast (tl r))
               then Some ([a, b], ds, Some (butlast (tl r)))
             else None)
          else None
      | _ \<Rightarrow> None)"

text \<open>\<^verbatim>\<open>/^([A-Z]{2})-([0-9]+)$/\<close>\<close>

definition hyphenRegex :: "string \<Rightarrow> (string \<times> string) option" where
  "hyphenRegex s =
     (case s of
        a # b # c # rest \<Rightarrow>
          if isUpperAZ a \<and> isUpperAZ b \<and> c = CHR ''-'' \<and> rest \<noteq> [] \<and> list_all isDigit rest
          then Some ([a, b], rest) else None
      | _ \<Rightarrow> None)"

text \<open>\<^verbatim>\<open>/^([A-Z]{2})\s+([0-9]+)$/\<close>\<close>

definition spaceRegex :: "string \<Rightarrow> (string \<times> string) option" where
  "spaceRegex s =
     (case s of
        a # b # rest \<Rightarrow>
          if isUpperAZ a \<and> isUpperAZ b then
            (let ws = takeWhile isSpace rest; ds = dropWhile isSpace rest in
             if ws \<noteq> [] \<and> ds \<noteq> [] \<and> list_all isDigit ds then Some ([a, b], ds) else None)
          else None
      | _ \<Rightarrow> None)"

text \<open>\<^verbatim>\<open>/^([A-Z]{2})([0-9]+)$/\<close>\<close>

definition noSepRegex :: "string \<Rightarrow> (string \<times> string) option" where
  "noSepRegex s =
     (case s of
        a # b # rest \<Rightarrow>
          if isUpperAZ a \<and> isUpperAZ b \<and> rest \<noteq> [] \<and> list_all isDigit rest
          then Some ([a, b], rest) else None
      | _ \<Rightarrow> None)"

subsection \<open>parse, normalize, compareControlIds\<close>

record parsed =
  family :: string
  number :: nat
  enhancement :: "nat option"
  internal :: string
  mcp :: string
  display :: string

text \<open>Lines 81 to 100 of \<^verbatim>\<open>parse\<close>: the two renderings and the returned object.\<close>

definition renderInternal :: "string \<Rightarrow> nat \<Rightarrow> nat option \<Rightarrow> string" where
  "renderInternal f n e =
     f @ ''.'' @ numberToString n @ (case e of None \<Rightarrow> [] | Some x \<Rightarrow> ''.'' @ numberToString x)"

definition renderMcp :: "string \<Rightarrow> nat \<Rightarrow> nat option \<Rightarrow> string" where
  "renderMcp f n e =
     f @ ''-'' @ numberToString n
       @ (case e of None \<Rightarrow> [] | Some x \<Rightarrow> ''('' @ numberToString x @ '')'')"

definition mkParsed :: "string \<Rightarrow> nat \<Rightarrow> nat option \<Rightarrow> parsed" where
  "mkParsed f n e =
     \<lparr> family = f, number = n, enhancement = e,
       internal = renderInternal f n e, mcp = renderMcp f n e, display = renderMcp f n e \<rparr>"

definition parse :: "string \<Rightarrow> error + parsed" where
  "parse controlId =
     (if controlId = [] then Inl ControlIdRequired
      else
        let upperControlId = toUpperCase controlId in
        case dotNotationRegex upperControlId of
          Some (f, n, e) \<Rightarrow> Inr (mkParsed f (parseInt10 n) (map_option parseInt10 e))
        | None \<Rightarrow>
        (case hyphenParensRegex upperControlId of
          Some (f, n, e) \<Rightarrow> Inr (mkParsed f (parseInt10 n) (map_option parseInt10 e))
        | None \<Rightarrow>
        (case hyphenRegex upperControlId of
          Some (f, n) \<Rightarrow> Inr (mkParsed f (parseInt10 n) None)
        | None \<Rightarrow>
        (case spaceRegex upperControlId of
          Some (f, n) \<Rightarrow> Inr (mkParsed f (parseInt10 n) None)
        | None \<Rightarrow>
        (case noSepRegex upperControlId of
          Some (f, n) \<Rightarrow> Inr (mkParsed f (parseInt10 n) None)
        | None \<Rightarrow> Inl (InvalidControlIdFormat controlId))))))"

text \<open>\<^verbatim>\<open>normalize(controlId, format = 'hyphen')\<close>: every format other than \<^verbatim>\<open>'dot'\<close>
  gives the hyphen form. (The function is named \<open>normalizeText\<close> here; \<open>normalize\<close> is a constant of HOL.)\<close>

definition normalizeText :: "string \<Rightarrow> string \<Rightarrow> error + string" where
  "normalizeText controlId format =
     (if controlId = [] then Inl ControlIdRequired
      else case parse controlId of
             Inl e \<Rightarrow> Inl e
           | Inr p \<Rightarrow> if format = ''dot'' then Inr (internal p) else Inr (mcp p))"

text \<open>The call \<^verbatim>\<open>normalizeControlId(controlId)\<close> of the services, with the default format.\<close>

definition normalizeControlId :: "string \<Rightarrow> error + string" where
  "normalizeControlId controlId = normalizeText controlId ''hyphen''"

text \<open>The operator \<^verbatim>\<open><\<close> on strings: lexicographic on the character codes.\<close>

fun stringLess :: "string \<Rightarrow> string \<Rightarrow> bool" where
  "stringLess [] [] = False"
| "stringLess [] (y # ys) = True"
| "stringLess (x # xs) [] = False"
| "stringLess (x # xs) (y # ys) =
     ((of_char x :: nat) < of_char y \<or> (x = y \<and> stringLess xs ys))"




definition wfFamily :: "string \<Rightarrow> bool" where
  "wfFamily f = (case f of [a, b] \<Rightarrow> isUpperAZ a \<and> isUpperAZ b | _ \<Rightarrow> False)"

text \<open>The canonical value of a textual identifier: family, number and enhancement of its
  parse, \<open>None\<close> when the text is no identifier.\<close>

definition canonicalOf :: "string \<Rightarrow> (string \<times> nat \<times> nat option) option" where
  "canonicalOf t =
     (case parse t of Inl _ \<Rightarrow> None | Inr p \<Rightarrow> Some (family p, number p, enhancement p))"

text \<open>The order on canonical values that \<open>compareParsed\<close> decides.\<close>

definition enhLess :: "nat option \<Rightarrow> nat option \<Rightarrow> bool" where
  "enhLess ea eb =
     (case ea of None \<Rightarrow> eb \<noteq> None
      | Some x \<Rightarrow> (case eb of None \<Rightarrow> False | Some y \<Rightarrow> x < y))"

definition idLess :: "parsed \<Rightarrow> parsed \<Rightarrow> bool" where
  "idLess pa pb =
     (stringLess (family pa) (family pb)
      \<or> (family pa = family pb
          \<and> (number pa < number pb
              \<or> (number pa = number pb \<and> enhLess (enhancement pa) (enhancement pb)))))"

section \<open>JavaScript objects and string helpers\<close>

text \<open>An object used as a dictionary is an association list in insertion order:
  assigning to a key that is present replaces its value in place, assigning to a new key
  appends it.\<close>

fun objSet :: "'k \<Rightarrow> 'v \<Rightarrow> ('k \<times> 'v) list \<Rightarrow> ('k \<times> 'v) list" where
  "objSet k v [] = [(k, v)]"
| "objSet k v ((k', v') # kvs) = (if k' = k then (k, v) # kvs else (k', v') # objSet k v kvs)"

text \<open>\<^verbatim>\<open>obj[k] || 0\<close> on an object of counters.\<close>

definition objCount :: "(string \<times> nat) list \<Rightarrow> string \<Rightarrow> nat" where
  "objCount obj k = (case map_of obj k of None \<Rightarrow> 0 | Some v \<Rightarrow> v)"

definition endsWith :: "string \<Rightarrow> string \<Rightarrow> bool" where
  "endsWith s suffix =
     (length suffix \<le> length s \<and> drop (length s - length suffix) s = suffix)"

fun strIncludes :: "string \<Rightarrow> string \<Rightarrow> bool" where
  "strIncludes [] sub = (sub = [])"
| "strIncludes (c # s) sub = (take (length sub) (c # s) = sub \<or> strIncludes s sub)"

text \<open>\<^verbatim>\<open>Array.prototype.findIndex\<close>; \<open>None\<close> stands for the result \<open>-1\<close>.\<close>

fun findIndex :: "('a \<Rightarrow> bool) \<Rightarrow> 'a list \<Rightarrow> nat option" where
  "findIndex P [] = None"
| "findIndex P (x # xs) =
     (if P x then Some 0 else (case findIndex P xs of None \<Rightarrow> None | Some i \<Rightarrow> Some (Suc i)))"

section \<open>The OSCAL service (oscalService.js)\<close>

subsection \<open>Files and service state\<close>

datatype dirEntry = Missing | NotADirectory | Directory "string list"

datatype includeControl = IncludeControl (withIds: "string list option")

datatype importObj = ImportObj (includeControls: "includeControl list option")

text \<open>The part of a parsed profile document that the service reads:
  \<^verbatim>\<open>profile.profile?.imports\<close>, each import's \<^verbatim>\<open>include-controls\<close> and each of their
  \<^verbatim>\<open>with-ids\<close>; \<open>None\<close> is an absent (or otherwise falsy) property.\<close>

datatype profileDoc = ProfileDoc (profileImports: "importObj list option")

text \<open>What \<^verbatim>\<open>fs.readFile\<close> followed by \<^verbatim>\<open>JSON.parse\<close> finds at a path: no readable
  file, text that is not JSON, or a document.\<close>

datatype fileContent = NoFile | Malformed | ProfileJson profileDoc

record profileInfo =
  profileId :: string
  profileTitle :: string
  path :: string

record controlImplementation =
  controlId :: string
  status :: string
  description :: string
  responsibleRoles :: "string list"
  lastUpdated :: "string option"

record sspMetadata =
  title :: string
  lastModified :: string
  version :: string
  oscalVersion :: string

record systemCharacteristics =
  systemName :: string
  systemDescription :: string
  securityImpactLevel :: string
  systemStatus :: string
  authorizationType :: string
  dateAuthorized :: "string option"

record ssp =
  sspIdent :: string
  uuid :: string
  metadata :: sspMetadata
  systemCharacteristics :: systemCharacteristics
  controlImplementations :: "controlImplementation list"
  created :: string
  updated :: string

text \<open>The state the two services work on: the configured profile directories, the
  directories and profile files of the content store, the three profile tables of the
  OSCAL service (\<open>None\<close> while a property is still undefined), and the SSP files of the
  data directory, keyed by SSP id.\<close>

record world =
  baselinesPath :: string
  fedrampPath :: string
  dirs :: "string \<Rightarrow> dirEntry"
  files :: "string \<Rightarrow> fileContent"
  profiles :: "(string \<times> profileInfo) list option"
  baselineProfiles :: "(string \<times> profileInfo) list option"
  fedrampProfiles :: "(string \<times> profileInfo) list option"
  sspFiles :: "string \<Rightarrow> ssp option"

subsection \<open>loadBaselineProfiles\<close>

text \<open>Lines 707 to 730: the loop over the JSON files of the profile directory. A file
  whose lower-cased name contains \<^verbatim>\<open>low\<close>, else \<^verbatim>\<open>moderate\<close>, else \<^verbatim>\<open>high\<close> becomes the
  profile of that level; a later file of the same level replaces an earlier one.\<close>

definition levelOfFile :: "string \<Rightarrow> string option" where
  "levelOfFile file =
     (if strIncludes (toLowerCase file) ''low'' then Some ''LOW''
      else if strIncludes (toLowerCase file) ''moderate'' then Some ''MODERATE''
      else if strIncludes (toLowerCase file) ''high'' then Some ''HIGH''
      else None)"

definition profileEntry :: "string \<Rightarrow> string \<Rightarrow> string \<Rightarrow> string \<Rightarrow> profileInfo" where
  "profileEntry profileType profilesPath securityLevel file =
     \<lparr> profileId = take (length file - 5) file,
       profileTitle = (if profileType = ''fedramp'' then ''FedRAMP'' else [])
          @ '' '' @ take 1 securityLevel @ toLowerCase (drop 1 securityLevel)
          @ '' Impact Baseline'',
       path = profilesPath @ ''/'' @ file \<rparr>"

definition mapProfileFiles ::
  "string \<Rightarrow> string \<Rightarrow> string list \<Rightarrow> (string \<times> profileInfo) list" where
  "mapProfileFiles profileType profilesPath jsonFiles =
     foldl (\<lambda>acc file.
              case levelOfFile file of
                None \<Rightarrow> acc
              | Some securityLevel \<Rightarrow>
                  objSet securityLevel (profileEntry profileType profilesPath securityLevel file) acc)
           [] jsonFiles"

definition loadBaselineProfiles ::
  "world \<Rightarrow> string \<Rightarrow> (error + (string \<times> profileInfo) list) \<times> world" where
  "loadBaselineProfiles w profileType =
     (let profilesPath = (if profileType = ''fedramp'' then fedrampPath w else baselinesPath w) in
      case dirs w profilesPath of
        Missing \<Rightarrow> (Inl (ProfilesDirectoryNotFound profilesPath), w)
      | NotADirectory \<Rightarrow> (Inl (ReaddirFailed profilesPath), w)
      | Directory profileFiles \<Rightarrow>
          let jsonFiles = filter (\<lambda>file. endsWith file ''.json'') profileFiles in
          if jsonFiles = [] then (Inl (NoProfileJsonFiles profilesPath), w)
          else
            let found = mapProfileFiles profileType profilesPath jsonFiles;
                w1 = w\<lparr>profiles := Some found\<rparr>
            in
            if found = [] then (Inl NoSecurityLevelsIdentified, w1)
            else if profileType = ''fedramp''
              then (Inr found, w1\<lparr>fedrampProfiles := Some found\<rparr>)
              else (Inr found, w1\<lparr>baselineProfiles := Some found\<rparr>))"

subsection \<open>getBaselineControls\<close>

text \<open>\<^verbatim>\<open>!table || Object.keys(table).length === 0\<close>\<close>

definition notLoaded :: "(string \<times> profileInfo) list option \<Rightarrow> bool" where
  "notLoaded table = (case table of None \<Rightarrow> True | Some entries \<Rightarrow> entries = [])"

text \<open>Lines 897 to 910: the identifiers of every \<^verbatim>\<open>with-ids\<close> of every
  \<^verbatim>\<open>include-controls\<close> of every import, concatenated in document order.\<close>

definition collectControlIds :: "profileDoc \<Rightarrow> string list" where
  "collectControlIds profile =
     (case profileImports profile of
        None \<Rightarrow> []
      | Some importObjs \<Rightarrow>
          foldl (\<lambda>controlIds importObj.
                   case includeControls importObj of
                     None \<Rightarrow> controlIds
                   | Some incs \<Rightarrow>
                       foldl (\<lambda>controlIds includeControl.
                                case withIds includeControl of
                                  None \<Rightarrow> controlIds
                                | Some ids \<Rightarrow> controlIds @ ids)
                             controlIds incs)
                [] importObjs)"

text \<open>Lines 880 to 917, from the chosen profile table on.\<close>

definition readBaseline ::
  "world \<Rightarrow> (string \<times> profileInfo) list \<Rightarrow> string \<Rightarrow> string \<Rightarrow> error + string list" where
  "readBaseline w profileSet normalizedLevel profileType =
     (case map_of profileSet normalizedLevel of
        None \<Rightarrow> Inl (SecurityLevelNotFound normalizedLevel profileType)
      | Some info \<Rightarrow>
          let profilePath = path info in
          if profilePath = [] then Inl (NoPathFound profileType normalizedLevel)
          else
            (case files w profilePath of
               NoFile \<Rightarrow> Inl (ReadFileFailed profilePath)
             | Malformed \<Rightarrow> Inl (JsonSyntaxError profilePath)
             | ProfileJson profile \<Rightarrow>
                 let controlIds = collectControlIds profile in
                 if controlIds = [] then Inl (NoControlsFound profilePath)
                 else Inr controlIds))"

definition getBaselineControls ::
  "world \<Rightarrow> string \<Rightarrow> string \<Rightarrow> (error + string list) \<times> world" where
  "getBaselineControls w securityLevel profileType =
     (let normalizedLevel = toUpperCase securityLevel in
      if profileType = ''fedramp'' then
        (if notLoaded (fedrampProfiles w) then
           (case loadBaselineProfiles w ''fedramp'' of
              (Inl e, w1) \<Rightarrow> (Inl e, w1)
            | (Inr _, w1) \<Rightarrow>
                (readBaseline w1 (case fedrampProfiles w1 of None \<Rightarrow> [] | Some t \<Rightarrow> t)
                   normalizedLevel profileType, w1))
         else
           (readBaseline w (case fedrampProfiles w of None \<Rightarrow> [] | Some t \<Rightarrow> t)
              normalizedLevel profileType, w))
      else
        (if notLoaded (baselineProfiles w) then
           (case loadBaselineProfiles w ''baseline'' of
              (Inl e, w1) \<Rightarrow> (Inl e, w1)
            | (Inr _, w1) \<Rightarrow>
                (readBaseline w1 (case baselineProfiles w1 of None \<Rightarrow> [] | Some t \<Rightarrow> t)
                   normalizedLevel profileType, w1))
         else
           (readBaseline w (case baselineProfiles w of None \<Rightarrow> [] | Some t \<Rightarrow> t)
              normalizedLevel profileType, w)))"

text \<open>The earlier variant of the service (the one with \<^verbatim>\<open>loadFedRAMPProfiles\<close>) keeps a
  fixed table and gives the empty array for a level that is not in it.\<close>

definition placeholderBaselines :: "(string \<times> string list) list" where
  "placeholderBaselines =
     [(''LOW'', [''AC-1'', ''AC-2'', ''AC-3'', ''AC-7'', ''AC-8'', ''AC-14'', ''AC-17'',
                 ''AC-18'', ''AC-19'', ''AC-20'', ''AC-22'']),
      (''MODERATE'', [''AC-1'', ''AC-2'', ''AC-2(1)'', ''AC-2(2)'', ''AC-2(3)'', ''AC-2(4)'',
                      ''AC-3'', ''AC-4'', ''AC-5'', ''AC-6'']),
      (''HIGH'', [''AC-1'', ''AC-2'', ''AC-2(1)'', ''AC-2(2)'', ''AC-2(3)'', ''AC-2(4)'',
                  ''AC-2(5)'', ''AC-2(11)'', ''AC-2(12)'', ''AC-2(13)''])]"

definition getBaselineControlsPlaceholder :: "string \<Rightarrow> error + string list" where
  "getBaselineControlsPlaceholder securityLevel =
     (case map_of placeholderBaselines securityLevel of
        None \<Rightarrow> Inr []
      | Some controls \<Rightarrow> Inr controls)"

subsection \<open>The control catalog and getControl\<close>

record control =
  ctlId :: string
  ctlTitle :: string
  ctlDescription :: string
  ctlFamily :: string
  enhancements :: "string list option"

record catalog =
  catalogId :: string
  catalogTitle :: string
  families :: "string list"
  controls :: "(string \<times> control) list"

definition loadControlCatalog :: catalog where
  "loadControlCatalog =
     \<lparr> catalogId = ''nist-800-53-rev5'',
       catalogTitle = ''NIST SP 800-53 Revision 5'',
       families = [''AC'', ''AT'', ''AU'', ''CA'', ''CM'', ''CP'', ''IA'', ''IR'', ''MA'',
                   ''MP'', ''PE'', ''PL'', ''PM'', ''PS'', ''PT'', ''RA'', ''SA'', ''SC'', ''SI''],
       controls = [] \<rparr>"

text \<open>\<^verbatim>\<open>s.split(sep)[0]\<close> for a separator of one character.\<close>

definition splitHead :: "char \<Rightarrow> string \<Rightarrow> string" where
  "splitHead sep s = takeWhile (\<lambda>c. c \<noteq> sep) s"

definition getControl :: "string \<Rightarrow> bool \<Rightarrow> error + control" where
  "getControl cid includeEnhancements =
     (case normalizeControlId cid of
        Inl e \<Rightarrow> Inl e
      | Inr normalizedId \<Rightarrow>
          Inr \<lparr> ctlId = normalizedId,
                ctlTitle = ''Control '' @ normalizedId,
                ctlDescription = ''This is a placeholder for control '' @ normalizedId,
                ctlFamily = (if splitHead CHR ''-'' normalizedId \<noteq> []
                             then splitHead CHR ''-'' normalizedId
                             else splitHead CHR ''.'' normalizedId),
                enhancements = (if includeEnhancements then Some [] else None) \<rparr>)"

text \<open>The profile table that \<open>getBaselineControls\<close> consults for a profile type, and the
  profile type it hands to \<open>loadBaselineProfiles\<close>.\<close>

definition profileTable :: "world \<Rightarrow> string \<Rightarrow> (string \<times> profileInfo) list option" where
  "profileTable w profileType =
     (if profileType = ''fedramp'' then fedrampProfiles w else baselineProfiles w)"

definition loadedType :: "string \<Rightarrow> string" where
  "loadedType profileType = (if profileType = ''fedramp'' then ''fedramp'' else ''baseline'')"

section \<open>The SSP service (sspService.js)\<close>

definition validLevels :: "string list" where
  "validLevels = [''LOW'', ''MODERATE'', ''HIGH'']"

definition validStatuses :: "string list" where
  "validStatuses = [''IMPLEMENTED'', ''PARTIALLY_IMPLEMENTED'', ''PLANNED'',
                    ''ALTERNATIVE_IMPLEMENTATION'', ''NOT_APPLICABLE'']"

text \<open>Lines 95 to 102: one record for each entry of the baseline, in order; the first
  identifier that does not parse throws.\<close>

fun seedImplementations :: "string list \<Rightarrow> error + controlImplementation list" where
  "seedImplementations [] = Inr []"
| "seedImplementations (c # cs) =
     (case normalizeControlId c of
        Inl e \<Rightarrow> Inl e
      | Inr n \<Rightarrow>
          (case seedImplementations cs of
             Inl e \<Rightarrow> Inl e
           | Inr rs \<Rightarrow>
               Inr (\<lparr> controlId = n, status = ''PLANNED'',
                       description = ''Implementation of '' @ c @ '' is planned.'',
                       responsibleRoles = [], lastUpdated = None \<rparr> # rs)))"

text \<open>\<^verbatim>\<open>createSSP(title, description, securityLevel, systemId)\<close>. The two fresh UUIDs
  and the three readings of the clock are arguments; \<open>systemId\<close> is \<open>None\<close> when the
  caller passes none.\<close>

definition createSSP ::
  "world \<Rightarrow> string \<Rightarrow> string \<Rightarrow> string \<Rightarrow> string option
     \<Rightarrow> string \<Rightarrow> string \<Rightarrow> string \<Rightarrow> string \<Rightarrow> string \<Rightarrow> (error + ssp) \<times> world" where
  "createSSP w ttl descr securityLevel systemId freshId freshUuid tModified tCreated tUpdated =
     (if securityLevel \<notin> set validLevels then (Inl (InvalidSecurityLevel securityLevel), w)
      else
        let ident = (case systemId of None \<Rightarrow> freshId
                     | Some s \<Rightarrow> if s = [] then freshId else s);
            doc = \<lparr> sspIdent = ident, uuid = freshUuid,
                    metadata = \<lparr> title = ttl, lastModified = tModified,
                                 version = ''1.0'', oscalVersion = ''1.1.0'' \<rparr>,
                    systemCharacteristics =
                      \<lparr> systemName = ttl, systemDescription = descr,
                        securityImpactLevel = securityLevel, systemStatus = ''operational'',
                        authorizationType = ''fedramp'', dateAuthorized = None \<rparr>,
                    controlImplementations = [],
                    created = tCreated, updated = tUpdated \<rparr>
        in
        case getBaselineControls w securityLevel ''baseline'' of
          (Inl e, w1) \<Rightarrow> (Inl e, w1)
        | (Inr baselineControls, w1) \<Rightarrow>
            (case seedImplementations baselineControls of
               Inl e \<Rightarrow> (Inl e, w1)
             | Inr impls \<Rightarrow>
                 let doc1 = doc\<lparr>controlImplementations := impls\<rparr> in
                 (Inr doc1, w1\<lparr>sspFiles := (sspFiles w1)(ident \<mapsto> doc1)\<rparr>)))"

definition getSSP :: "world \<Rightarrow> string \<Rightarrow> error + ssp" where
  "getSSP w sid = (case sspFiles w sid of None \<Rightarrow> Inl (SSPNotFound sid) | Some doc \<Rightarrow> Inr doc)"

text \<open>\<^verbatim>\<open>addControlImplementation(sspId, controlId, implementationStatus, description,
  responsibleRoles = [])\<close>; \<open>roles\<close> is \<open>None\<close> for an absent or null argument. The two
  readings of the clock are arguments.\<close>

definition addControlImplementation ::
  "world \<Rightarrow> string \<Rightarrow> string \<Rightarrow> string \<Rightarrow> string \<Rightarrow> string list option
     \<Rightarrow> string \<Rightarrow> string \<Rightarrow> (error + controlImplementation) \<times> world" where
  "addControlImplementation w sid cid implementationStatus descr roles tRecord tUpdated =
     (case getSSP w sid of
        Inl e \<Rightarrow> (Inl e, w)
      | Inr doc \<Rightarrow>
          (case normalizeControlId cid of
             Inl e \<Rightarrow> (Inl e, w)
           | Inr normalizedControlId \<Rightarrow>
               if implementationStatus \<notin> set validStatuses
               then (Inl (InvalidImplementationStatus implementationStatus), w)
               else
                 let implementationIndex =
                       findIndex (\<lambda>impl. controlId impl = normalizedControlId)
                         (controlImplementations doc);
                     implementation =
                       \<lparr> controlId = normalizedControlId, status = implementationStatus,
                         description = descr,
                         responsibleRoles = (case roles of None \<Rightarrow> [] | Some rs \<Rightarrow> rs),
                         lastUpdated = Some tRecord \<rparr>;
                     impls = (case implementationIndex of
                                Some i \<Rightarrow> (controlImplementations doc)[i := implementation]
                              | None \<Rightarrow> controlImplementations doc @ [implementation]);
                     doc1 = doc\<lparr>controlImplementations := impls, updated := tUpdated\<rparr>
                 in (Inr implementation, w\<lparr>sspFiles := (sspFiles w)(sid \<mapsto> doc1)\<rparr>)))"

text \<open>\<^verbatim>\<open>baselineControls.map(c => normalizeControlId(c))\<close>\<close>

fun normalizeAll :: "string list \<Rightarrow> error + string list" where
  "normalizeAll [] = Inr []"
| "normalizeAll (c # cs) =
     (case normalizeControlId c of
        Inl e \<Rightarrow> Inl e
      | Inr n \<Rightarrow> (case normalizeAll cs of Inl e \<Rightarrow> Inl e | Inr ns \<Rightarrow> Inr (n # ns)))"

text \<open>Lines 305 to 315: the counters, starting from the five known statuses at zero.\<close>

definition countByStatus :: "controlImplementation list \<Rightarrow> (string \<times> nat) list" where
  "countByStatus impls =
     foldl (\<lambda>implementationByStatus impl.
              objSet (status impl) (objCount implementationByStatus (status impl) + 1)
                implementationByStatus)
           [(''IMPLEMENTED'', 0), (''PARTIALLY_IMPLEMENTED'', 0), (''PLANNED'', 0),
            (''ALTERNATIVE_IMPLEMENTATION'', 0), (''NOT_APPLICABLE'', 0)]
           impls"

text \<open>\<^verbatim>\<open>parseFloat(x.toFixed(2))\<close> for \<open>x \<ge> 0\<close>: the multiple of one hundredth nearest to
  \<open>x\<close>, the larger one when two are equally near. The arithmetic of the percentage is
  taken over the rationals; the source computes in double precision, where a quotient
  that lies exactly between two hundredths may come out on either side.\<close>

definition toFixed2 :: "rat \<Rightarrow> rat" where
  "toFixed2 x = of_int \<lfloor>x * 100 + 1 / 2\<rfloor> / 100"

definition percentageOf :: "nat \<Rightarrow> nat \<Rightarrow> nat \<Rightarrow> rat" where
  "percentageOf implementedCount partiallyImplementedCount totalControls =
     (if totalControls = 0 then 0
      else toFixed2 (((of_nat implementedCount + of_nat partiallyImplementedCount * (1 / 2))
                       / of_nat totalControls) * 100))"

record validation =
  valid :: bool
  missingControls :: "string list"
  implementationByStatus :: "(string \<times> nat) list"
  implementationPercentage :: rat
  totalControls :: nat

definition validateSSP :: "world \<Rightarrow> string \<Rightarrow> (error + validation) \<times> world" where
  "validateSSP w sid =
     (case getSSP w sid of
        Inl e \<Rightarrow> (Inl e, w)
      | Inr doc \<Rightarrow>
          (case getBaselineControls w
                  (securityImpactLevel (systemCharacteristics doc)) ''baseline'' of
             (Inl e, w1) \<Rightarrow> (Inl e, w1)
           | (Inr baselineControls, w1) \<Rightarrow>
               (case normalizeAll baselineControls of
                  Inl e \<Rightarrow> (Inl e, w1)
                | Inr normalizedBaselineControls \<Rightarrow>
                    let implementedControls = map controlId (controlImplementations doc);
                        missing = filter (\<lambda>c. c \<notin> set implementedControls)
                                    normalizedBaselineControls;
                        byStatus = countByStatus (controlImplementations doc);
                        total = length (controlImplementations doc);
                        implementedCount = objCount byStatus ''IMPLEMENTED'';
                        partiallyImplementedCount = objCount byStatus ''PARTIALLY_IMPLEMENTED''
                    in
                    (Inr \<lparr> valid = (missing = []),
                           missingControls = missing,
                           implementationByStatus = byStatus,
                           implementationPercentage =
                             percentageOf implementedCount partiallyImplementedCount total,
                           totalControls = total \<rparr>, w1))))"

section \<open>Notions used to state the claims\<close>

text \<open>The record that \<open>addControlImplementation\<close> builds (lines 197 to 203) and the
  replace-or-append step it performs with it (lines 192 to 209), by name.\<close>

definition newImplementation ::
  "string \<Rightarrow> string \<Rightarrow> string \<Rightarrow> string list option \<Rightarrow> string \<Rightarrow> controlImplementation" where
  "newImplementation normalizedControlId implementationStatus descr roles tRecord =
     \<lparr> controlId = normalizedControlId, status = implementationStatus,
       description = descr,
       responsibleRoles = (case roles of None \<Rightarrow> [] | Some rs \<Rightarrow> rs),
       lastUpdated = Some tRecord \<rparr>"

definition upsertRecord ::
  "controlImplementation \<Rightarrow> controlImplementation list \<Rightarrow> controlImplementation list" where
  "upsertRecord implementation impls =
     (case findIndex (\<lambda>impl. controlId impl = controlId implementation) impls of
        Some i \<Rightarrow> impls[i := implementation]
      | None \<Rightarrow> impls @ [implementation])"

text \<open>The hyphen rendering of a text that parses (the empty text for one that does not),
  and the record that \<open>createSSP\<close> seeds for an entry of the baseline.\<close>

definition canonicalText :: "string \<Rightarrow> string" where
  "canonicalText c = (case normalizeControlId c of Inl _ \<Rightarrow> [] | Inr n \<Rightarrow> n)"

definition seedRecord :: "string \<Rightarrow> controlImplementation" where
  "seedRecord c =
     \<lparr> controlId = canonicalText c,
       status = ''PLANNED'',
       description = ''Implementation of '' @ c @ '' is planned.'',
       responsibleRoles = [], lastUpdated = None \<rparr>"

text \<open>The identifier of the document that \<open>createSSP\<close> writes
  (\<^verbatim>\<open>systemId || randomUUID()\<close>), and the document itself, given its records.\<close>

definition chosenId :: "string option \<Rightarrow> string \<Rightarrow> string" where
  "chosenId systemId freshId =
     (case systemId of None \<Rightarrow> freshId | Some s \<Rightarrow> if s = [] then freshId else s)"

definition newSSP ::
  "string \<Rightarrow> string \<Rightarrow> string \<Rightarrow> string \<Rightarrow> string \<Rightarrow> string \<Rightarrow> string \<Rightarrow> string
     \<Rightarrow> controlImplementation list \<Rightarrow> ssp" where
  "newSSP ttl descr securityLevel ident freshUuid tModified tCreated tUpdated impls =
     \<lparr> sspIdent = ident, uuid = freshUuid,
       metadata = \<lparr> title = ttl, lastModified = tModified,
                    version = ''1.0'', oscalVersion = ''1.1.0'' \<rparr>,
       systemCharacteristics =
         \<lparr> systemName = ttl, systemDescription = descr,
           securityImpactLevel = securityLevel, systemStatus = ''operational'',
           authorizationType = ''fedramp'', dateAuthorized = None \<rparr>,
       controlImplementations = impls,
       created = tCreated, updated = tUpdated \<rparr>"



text \<open>A record with its time stamp erased.\<close>

definition withoutLastUpdated :: "controlImplementation \<Rightarrow> controlImplementation" where
  "withoutLastUpdated r = r\<lparr>lastUpdated := None\<rparr>"


section \<open>Sample states\<close>

text \<open>The content store that \<^verbatim>\<open>scripts/setup-test-data.js\<close> writes: one profile,
  \<^verbatim>\<open>moderate_baseline.json\<close>, whose import includes \<^verbatim>\<open>ac-1\<close>, \<^verbatim>\<open>ac-2\<close> and \<^verbatim>\<open>si-4\<close>;
  no profile table is loaded yet and there is no SSP.\<close>

definition sampleProfile :: profileDoc where
  "sampleProfile =
     ProfileDoc (Some [ImportObj (Some [IncludeControl (Some [''ac-1'', ''ac-2'', ''si-4''])])])"

definition sampleWorld :: world where
  "sampleWorld =
     \<lparr> baselinesPath = ''oscal-content/profiles/baselines'',
       fedrampPath = ''oscal-content/profiles/fedramp'',
       dirs = (\<lambda>p. if p = ''oscal-content/profiles/baselines''
                    then Directory [''moderate_baseline.json''] else Missing),
       files = (\<lambda>p. if p = ''oscal-content/profiles/baselines/moderate_baseline.json''
                     then ProfileJson sampleProfile else NoFile),
       profiles = None, baselineProfiles = None, fedrampProfiles = None,
       sspFiles = (\<lambda>_. None) \<rparr>"

text \<open>The same store with a profile that imports nothing.\<close>

definition emptyProfileWorld :: world where
  "emptyProfileWorld =
     sampleWorld\<lparr>files := (\<lambda>p. if p = ''oscal-content/profiles/baselines/moderate_baseline.json''
                                 then ProfileJson (ProfileDoc (Some [ImportObj None]))
                                 else NoFile)\<rparr>"

text \<open>The profile table that \<open>loadBaselineProfiles\<close> builds from that store, and the store
  once the table is loaded.\<close>

definition sampleTable :: "(string \<times> profileInfo) list" where
  "sampleTable =
     [(''MODERATE'',
       \<lparr> profileId = ''moderate_baseline'',
         profileTitle = '' Moderate Impact Baseline'',
         path = ''oscal-content/profiles/baselines/moderate_baseline.json'' \<rparr>)]"

definition sampleWorldLoaded :: world where
  "sampleWorldLoaded = sampleWorld\<lparr>profiles := Some sampleTable, baselineProfiles := Some sampleTable\<rparr>"

definition emptyProfileWorldLoaded :: world where
  "emptyProfileWorldLoaded =
     emptyProfileWorld\<lparr>profiles := Some sampleTable, baselineProfiles := Some sampleTable\<rparr>"

text \<open>Scenario B: an SSP of level \<^verbatim>\<open>MODERATE\<close> created on that store, with the system
  identifier \<^verbatim>\<open>doc\<close>.\<close>

definition sampleDoc :: ssp where
  "sampleDoc =
     \<lparr> sspIdent = ''doc'', uuid = ''uuid-2'',
       metadata = \<lparr> title = ''Sample System'', lastModified = ''t0'',
                    version = ''1.0'', oscalVersion = ''1.1.0'' \<rparr>,
       systemCharacteristics =
         \<lparr> systemName = ''Sample System'', systemDescription = ''A sample system'',
           securityImpactLevel = ''MODERATE'', systemStatus = ''operational'',
           authorizationType = ''fedramp'', dateAuthorized = None \<rparr>,
       controlImplementations =
         [\<lparr> controlId = ''AC-1'', status = ''PLANNED'',
             description = ''Implementation of ac-1 is planned.'',
             responsibleRoles = [], lastUpdated = None \<rparr>,
          \<lparr> controlId = ''AC-2'', status = ''PLANNED'',
             description = ''Implementation of ac-2 is planned.'',
             responsibleRoles = [], lastUpdated = None \<rparr>,
          \<lparr> controlId = ''SI-4'', status = ''PLANNED'',
             description = ''Implementation of si-4 is planned.'',
             responsibleRoles = [], lastUpdated = None \<rparr>],
       created = ''t0'', updated = ''t0'' \<rparr>"

definition createdWorld :: world where
  "createdWorld = sampleWorldLoaded\<lparr>sspFiles := (sspFiles sampleWorldLoaded)(''doc'' \<mapsto> sampleDoc)\<rparr>"






text \<open>The state between the two steps of scenario C.\<close>

definition step1Doc :: ssp where
  "step1Doc =
     sampleDoc\<lparr>controlImplementations :=
         [\<lparr> controlId = ''AC-1'', status = ''IMPLEMENTED'',
             description = ''Policy is in place.'',
             responsibleRoles = [''security-team''], lastUpdated = Some ''t1'' \<rparr>,
          \<lparr> controlId = ''AC-2'', status = ''PLANNED'',
             description = ''Implementation of ac-2 is planned.'',
             responsibleRoles = [], lastUpdated = None \<rparr>,
          \<lparr> controlId = ''SI-4'', status = ''PLANNED'',
             description = ''Implementation of si-4 is planned.'',
             responsibleRoles = [], lastUpdated = None \<rparr>],
       updated := ''t1''\<rparr>"

definition step1World :: world where
  "step1World = sampleWorldLoaded\<lparr>sspFiles := (sspFiles sampleWorldLoaded)(''doc'' \<mapsto> step1Doc)\<rparr>"



section \<open>Lemmas on characters, numbers and the regular expressions\<close>



lemma digit_cases: "d < 10 \<Longrightarrow> d = 0 \<or> d = 1 \<or> d = 2 \<or> d = 3 \<or> d = 4 \<or> d = 5 \<or> d = 6 \<or> d = 7 \<or> d = 8 \<or> d = (9::nat)"
  by arith

lemma isDigit_digitChar: "d < 10 \<Longrightarrow> isDigit (digitChar d)"
  using digit_cases [of d] by (auto simp: digitChar_def isDigit_def)

lemma digitVal_digitChar: "d < 10 \<Longrightarrow> digitVal (digitChar d) = d"
  using digit_cases [of d] by (auto simp: digitChar_def digitVal_def)

lemma numberToString_digits: "list_all isDigit (numberToString n)"
proof (induction n rule: numberToString.induct)
  case (1 n)
  show ?case
  proof (cases "n < 10")
    case True
    then show ?thesis by (simp add: numberToString.simps [of n] isDigit_digitChar)
  next
    case False
    with 1 show ?thesis by (simp add: numberToString.simps [of n] isDigit_digitChar)
  qed
qed

lemma numberToString_nonempty: "numberToString n \<noteq> []"
  by (simp add: numberToString.simps [of n])

lemma parseInt10_snoc: "parseInt10 (xs @ [c]) = parseInt10 xs * 10 + digitVal c"
  by (simp add: parseInt10_def)

lemma parseInt10_numberToString: "parseInt10 (numberToString n) = n"
proof (induction n rule: numberToString.induct)
  case (1 n)
  show ?case
  proof (cases "n < 10")
    case True
    then show ?thesis
      by (simp add: numberToString.simps [of n] parseInt10_def digitVal_digitChar)
  next
    case False
    with 1 have "parseInt10 (numberToString (n div 10)) = n div 10" by simp
    with False show ?thesis
      by (simp add: numberToString.simps [of n] parseInt10_snoc digitVal_digitChar)
  qed
qed

lemma toUpperChar_fix: "\<not> isLowerAZ c \<Longrightarrow> toUpperChar c = c"
  by (simp add: toUpperChar_def)

lemma toUpperCase_fix: "\<forall>c \<in> set s. \<not> isLowerAZ c \<Longrightarrow> toUpperCase s = s"
  by (induction s) (simp_all add: toUpperCase_def toUpperChar_fix)

lemma isDigit_not_lower: "isDigit c \<Longrightarrow> \<not> isLowerAZ c"
  by (simp add: isDigit_def isLowerAZ_def)

lemma isUpper_not_lower: "isUpperAZ c \<Longrightarrow> \<not> isLowerAZ c"
  by (simp add: isUpperAZ_def isLowerAZ_def)



lemma takeWhile_digits_stop:
  "list_all isDigit ds \<Longrightarrow> (r = [] \<or> \<not> isDigit (hd r)) \<Longrightarrow> takeWhile isDigit (ds @ r) = ds"
  by (cases r) (auto simp: list_all_iff takeWhile_append2)

lemma dropWhile_digits_stop:
  "list_all isDigit ds \<Longrightarrow> (r = [] \<or> \<not> isDigit (hd r)) \<Longrightarrow> dropWhile isDigit (ds @ r) = r"
  by (cases r) (auto simp: list_all_iff dropWhile_append2)

lemma toUpperCase_append: "toUpperCase (xs @ ys) = toUpperCase xs @ toUpperCase ys"
  by (simp add: toUpperCase_def)

lemma toUpperCase_Cons: "toUpperCase (c # s) = toUpperChar c # toUpperCase s"
  by (simp add: toUpperCase_def)

lemma toUpperCase_Nil: "toUpperCase [] = []"
  by (simp add: toUpperCase_def)

lemma takeWhile_digits_all: "list_all isDigit ds \<Longrightarrow> takeWhile isDigit ds = ds"
  by (simp add: list_all_iff)

lemma dropWhile_digits_all: "list_all isDigit ds \<Longrightarrow> dropWhile isDigit ds = []"
  by (simp add: list_all_iff)

lemma toUpperCase_numberToString: "toUpperCase (numberToString n) = numberToString n"
  using numberToString_digits [of n]
  by (intro toUpperCase_fix) (auto simp: list_all_iff isDigit_not_lower)

lemma toUpperChar_upper: "isUpperAZ c \<Longrightarrow> toUpperChar c = c"
  by (simp add: toUpperChar_def isUpperAZ_def isLowerAZ_def)

lemma toUpperChar_punct:
  "toUpperChar CHR ''-'' = CHR ''-''" "toUpperChar CHR ''.'' = CHR ''.''"
  "toUpperChar CHR ''('' = CHR ''(''" "toUpperChar CHR '')'' = CHR '')''"
  by (simp_all add: toUpperChar_def isLowerAZ_def)

lemma toUpperCase_renderMcp:
  "isUpperAZ a \<Longrightarrow> isUpperAZ b \<Longrightarrow> toUpperCase (renderMcp [a, b] n e) = renderMcp [a, b] n e"
  by (cases e)
     (simp_all add: renderMcp_def toUpperCase_append toUpperCase_numberToString
        toUpperCase_Cons toUpperCase_Nil toUpperChar_upper toUpperChar_punct)


lemma hyphenParensRegex_renderMcp:
  assumes "isUpperAZ a" "isUpperAZ b"
  shows "hyphenParensRegex (renderMcp [a, b] n e)
         = Some ([a, b], numberToString n, map_option numberToString e)"
proof (cases e)
  case None
  then show ?thesis
    using assms numberToString_digits [of n] numberToString_nonempty [of n]
    by (simp add: hyphenParensRegex_def renderMcp_def takeWhile_digits_all dropWhile_digits_all)
next
  case (Some x)
  have t: "takeWhile isDigit (numberToString n @ CHR ''('' # numberToString x @ [CHR '')''])
           = numberToString n"
    by (rule takeWhile_digits_stop) (simp_all add: numberToString_digits isDigit_def)
  have d: "dropWhile isDigit (numberToString n @ CHR ''('' # numberToString x @ [CHR '')''])
           = CHR ''('' # numberToString x @ [CHR '')'']"
    by (rule dropWhile_digits_stop) (simp_all add: numberToString_digits isDigit_def)
  show ?thesis
    using assms Some numberToString_digits [of x] numberToString_nonempty [of x]
      numberToString_nonempty [of n]
    by (simp add: hyphenParensRegex_def renderMcp_def t d)
qed

lemma dotNotationRegex_renderMcp: "dotNotationRegex (renderMcp [a, b] n e) = None"
  by (simp add: dotNotationRegex_def renderMcp_def)


lemma parse_renderMcp:
  assumes "isUpperAZ a" "isUpperAZ b"
  shows "parse (renderMcp [a, b] n e) = Inr (mkParsed [a, b] n e)"
proof -
  have ne: "renderMcp [a, b] n e \<noteq> []" by (simp add: renderMcp_def)
  show ?thesis
    using assms ne
    by (cases e)
       (simp_all add: parse_def toUpperCase_renderMcp dotNotationRegex_renderMcp
          hyphenParensRegex_renderMcp parseInt10_numberToString)
qed


lemma wfFamilyE: "wfFamily f \<Longrightarrow> \<exists>a b. f = [a, b] \<and> isUpperAZ a \<and> isUpperAZ b"
  by (auto simp: wfFamily_def split: list.splits)

lemma dotNotationRegex_family: "dotNotationRegex s = Some (f, n, e) \<Longrightarrow> wfFamily f"
  by (auto simp: dotNotationRegex_def wfFamily_def Let_def split: list.splits if_splits)

lemma hyphenParensRegex_family: "hyphenParensRegex s = Some (f, n, e) \<Longrightarrow> wfFamily f"
  by (auto simp: hyphenParensRegex_def wfFamily_def Let_def split: list.splits if_splits)

lemma hyphenRegex_family: "hyphenRegex s = Some (f, n) \<Longrightarrow> wfFamily f"
  by (auto simp: hyphenRegex_def wfFamily_def split: list.splits if_splits)

lemma spaceRegex_family: "spaceRegex s = Some (f, n) \<Longrightarrow> wfFamily f"
  by (auto simp: spaceRegex_def wfFamily_def Let_def split: list.splits if_splits)

lemma noSepRegex_family: "noSepRegex s = Some (f, n) \<Longrightarrow> wfFamily f"
  by (auto simp: noSepRegex_def wfFamily_def split: list.splits if_splits)

lemma parse_shape:
  assumes "parse t = Inr p"
  shows "wfFamily (family p) \<and> p = mkParsed (family p) (number p) (enhancement p)"
  using assms
  by (auto simp: parse_def Let_def mkParsed_def
      dest: dotNotationRegex_family hyphenParensRegex_family hyphenRegex_family
        spaceRegex_family noSepRegex_family
      split: if_splits option.splits)

lemma parse_mcp_roundtrip: "parse t = Inr p \<Longrightarrow> parse (mcp p) = Inr p"
proof -
  assume a: "parse t = Inr p"
  from parse_shape [OF a] obtain x y where
    f: "family p = [x, y]" "isUpperAZ x" "isUpperAZ y"
    and p: "p = mkParsed (family p) (number p) (enhancement p)"
    by (auto dest: wfFamilyE)
  have "mcp p = renderMcp [x, y] (number p) (enhancement p)"
    using p f by (metis mkParsed_def parsed.select_convs(5))
  then show ?thesis using parse_renderMcp [OF f(2,3)] p f by simp
qed


section \<open>The order of control identifiers\<close>


lemma stringLess_irrefl: "\<not> stringLess s s"
  by (induction s) auto







lemma enhLess_irrefl: "\<not> enhLess a a"
  by (auto simp: enhLess_def split: option.splits)

lemma idLess_irrefl: "\<not> idLess p p"
  by (simp add: idLess_def stringLess_irrefl enhLess_irrefl)







lemma parse_nonempty: "parse t = Inr p \<Longrightarrow> t \<noteq> []"
  by (auto simp: parse_def)




section \<open>Lemmas on normalisation\<close>


lemma normalizeText_parsed:
  "parse t = Inr p \<Longrightarrow>
   normalizeText t fmt = Inr (if fmt = ''dot'' then internal p else mcp p)"
  by (simp add: normalizeText_def parse_nonempty)

lemma normalizeControlId_parsed: "parse t = Inr p \<Longrightarrow> normalizeControlId t = Inr (mcp p)"
  by (simp add: normalizeControlId_def normalizeText_parsed)

lemma parsed_renderings:
  assumes "parse t = Inr p"
  shows "mcp p = renderMcp (family p) (number p) (enhancement p)"
    and "internal p = renderInternal (family p) (number p) (enhancement p)"
proof -
  have p: "p = mkParsed (family p) (number p) (enhancement p)"
    using parse_shape [OF assms] by simp
  show "mcp p = renderMcp (family p) (number p) (enhancement p)"
    by (subst p) (simp add: mkParsed_def)
  show "internal p = renderInternal (family p) (number p) (enhancement p)"
    by (subst p) (simp add: mkParsed_def)
qed


lemma splitHead_family:
  assumes "wfFamily f"
  shows "splitHead CHR ''-'' (renderMcp f n e) = f"
proof -
  from assms obtain a b where f: "f = [a, b]" "isUpperAZ a" "isUpperAZ b"
    by (auto dest: wfFamilyE)
  have "a \<noteq> CHR ''-''" "b \<noteq> CHR ''-''"
    using f by (auto simp: isUpperAZ_def)
  then show ?thesis
    using f by (simp add: splitHead_def renderMcp_def)
qed

lemma wfFamily_nonempty: "wfFamily f \<Longrightarrow> f \<noteq> []"
  by (auto simp: wfFamily_def)

lemma normalizeControlId_error: "parse t = Inl e \<Longrightarrow> normalizeControlId t = Inl e"
  by (auto simp: normalizeControlId_def normalizeText_def parse_def)

section \<open>Lemmas on the OSCAL service\<close>


lemma readBaseline_nonempty: "readBaseline w table level profileType \<noteq> Inr []"
  by (simp add: readBaseline_def Let_def split: option.splits fileContent.splits)

lemma loadBaselineProfiles_error:
  assumes "loadBaselineProfiles w profileType = (Inl e, w1)"
  shows "e \<in> {ProfilesDirectoryNotFound (if profileType = ''fedramp'' then fedrampPath w else baselinesPath w),
              ReaddirFailed (if profileType = ''fedramp'' then fedrampPath w else baselinesPath w),
              NoProfileJsonFiles (if profileType = ''fedramp'' then fedrampPath w else baselinesPath w),
              NoSecurityLevelsIdentified}"
  using assms
  by (auto simp: loadBaselineProfiles_def Let_def split: dirEntry.splits if_splits)

lemma loadBaselineProfiles_baseline:
  assumes "loadBaselineProfiles w ''baseline'' = (Inr found, w1)"
  shows "baselineProfiles w1 = Some found \<and> found \<noteq> [] \<and> files w1 = files w
         \<and> sspFiles w1 = sspFiles w"
  using assms
  by (auto simp: loadBaselineProfiles_def Let_def split: dirEntry.splits if_splits)

lemma loadBaselineProfiles_fedramp:
  assumes "loadBaselineProfiles w ''fedramp'' = (Inr found, w1)"
  shows "fedrampProfiles w1 = Some found \<and> found \<noteq> [] \<and> files w1 = files w
         \<and> sspFiles w1 = sspFiles w"
  using assms
  by (auto simp: loadBaselineProfiles_def Let_def split: dirEntry.splits if_splits)

lemma getBaselineControls_loaded:
  assumes "profileTable w profileType = Some table" and "table \<noteq> []"
  shows "getBaselineControls w securityLevel profileType
         = (readBaseline w table (toUpperCase securityLevel) profileType, w)"
  using assms
  by (auto simp: getBaselineControls_def profileTable_def notLoaded_def Let_def)

lemma getBaselineControls_load_fails:
  assumes "notLoaded (profileTable w profileType)"
    and "loadBaselineProfiles w (loadedType profileType) = (Inl e, w1)"
  shows "getBaselineControls w securityLevel profileType = (Inl e, w1)"
  using assms
  by (auto simp: getBaselineControls_def profileTable_def loadedType_def Let_def)

lemma getBaselineControls_load_succeeds:
  assumes "notLoaded (profileTable w profileType)"
    and "loadBaselineProfiles w (loadedType profileType) = (Inr found, w1)"
  shows "getBaselineControls w securityLevel profileType
         = (readBaseline w1 found (toUpperCase securityLevel) profileType, w1)"
proof (cases "profileType = ''fedramp''")
  case True
  with assms(2) have l: "loadBaselineProfiles w ''fedramp'' = (Inr found, w1)"
    by (simp add: loadedType_def)
  from loadBaselineProfiles_fedramp [OF l] have "fedrampProfiles w1 = Some found" by simp
  with True assms(1) l show ?thesis
    by (simp add: getBaselineControls_def profileTable_def Let_def)
next
  case False
  with assms(2) have l: "loadBaselineProfiles w ''baseline'' = (Inr found, w1)"
    by (simp add: loadedType_def)
  from loadBaselineProfiles_baseline [OF l] have "baselineProfiles w1 = Some found" by simp
  with False assms(1) l show ?thesis
    by (simp add: getBaselineControls_def profileTable_def Let_def)
qed

lemma getBaselineControls_nonempty:
  "fst (getBaselineControls w securityLevel profileType) \<noteq> Inr []"
proof (cases "notLoaded (profileTable w profileType)")
  case True
  obtain r w1 where l: "loadBaselineProfiles w (loadedType profileType) = (r, w1)"
    by (cases "loadBaselineProfiles w (loadedType profileType)")
  show ?thesis
  proof (cases r)
    case (Inl e)
    with l True show ?thesis by (simp add: getBaselineControls_load_fails)
  next
    case (Inr found)
    with l True show ?thesis
      by (simp add: getBaselineControls_load_succeeds readBaseline_nonempty)
  qed
next
  case False
  then obtain table where "profileTable w profileType = Some table" "table \<noteq> []"
    by (auto simp: notLoaded_def split: option.splits)
  then show ?thesis
    by (simp add: getBaselineControls_loaded readBaseline_nonempty)
qed

lemma readBaseline_not_found:
  "map_of table level = None \<Longrightarrow>
   readBaseline w table level profileType = Inl (SecurityLevelNotFound level profileType)"
  by (simp add: readBaseline_def)

lemma readBaseline_no_controls:
  "map_of table level = Some info \<Longrightarrow> path info \<noteq> [] \<Longrightarrow>
   files w (path info) = ProfileJson doc \<Longrightarrow> collectControlIds doc = [] \<Longrightarrow>
   readBaseline w table level profileType = Inl (NoControlsFound (path info))"
  by (simp add: readBaseline_def Let_def)

section \<open>Lemmas on the sample states\<close>


lemma levelOfFile_sample: "levelOfFile ''moderate_baseline.json'' = Some ''MODERATE''"
  by code_simp

lemma profileEntry_sample:
  "profileEntry ''baseline'' ''oscal-content/profiles/baselines'' ''MODERATE''
     ''moderate_baseline.json''
   = \<lparr> profileId = ''moderate_baseline'',
       profileTitle = '' Moderate Impact Baseline'',
       path = ''oscal-content/profiles/baselines/moderate_baseline.json'' \<rparr>"
  by code_simp

lemma endsWith_sample: "endsWith ''moderate_baseline.json'' ''.json''"
  by code_simp

lemma mapProfileFiles_sample:
  "mapProfileFiles ''baseline'' ''oscal-content/profiles/baselines'' [''moderate_baseline.json'']
   = sampleTable"
  by (simp add: mapProfileFiles_def levelOfFile_sample profileEntry_sample sampleTable_def)

lemma load_sampleWorld:
  "loadBaselineProfiles sampleWorld ''baseline'' = (Inr sampleTable, sampleWorldLoaded)"
  by (simp add: loadBaselineProfiles_def sampleWorld_def sampleWorldLoaded_def Let_def
      endsWith_sample mapProfileFiles_sample, simp add: sampleTable_def)

lemma load_emptyProfileWorld:
  "loadBaselineProfiles emptyProfileWorld ''baseline'' = (Inr sampleTable, emptyProfileWorldLoaded)"
  by (simp add: loadBaselineProfiles_def emptyProfileWorld_def emptyProfileWorldLoaded_def
      sampleWorld_def Let_def endsWith_sample mapProfileFiles_sample, simp add: sampleTable_def)

lemma sampleWorld_notLoaded:
  "notLoaded (profileTable sampleWorld ''baseline'')"
  "notLoaded (profileTable emptyProfileWorld ''baseline'')"
  by (simp_all add: notLoaded_def profileTable_def sampleWorld_def emptyProfileWorld_def)

lemma collectControlIds_sample: "collectControlIds sampleProfile = [''ac-1'', ''ac-2'', ''si-4'']"
  by (simp add: collectControlIds_def sampleProfile_def)

lemma getBaselineControls_sampleWorld:
  "getBaselineControls sampleWorld ''MODERATE'' ''baseline''
   = (Inr [''ac-1'', ''ac-2'', ''si-4''], sampleWorldLoaded)"
proof -
  have u: "toUpperCase ''MODERATE'' = ''MODERATE''" by code_simp
  have f: "files sampleWorldLoaded ''oscal-content/profiles/baselines/moderate_baseline.json''
           = ProfileJson sampleProfile"
    by (simp add: sampleWorldLoaded_def sampleWorld_def)
  have "readBaseline sampleWorldLoaded sampleTable ''MODERATE'' ''baseline''
        = Inr [''ac-1'', ''ac-2'', ''si-4'']"
    by (simp add: readBaseline_def sampleTable_def f collectControlIds_sample)
  then show ?thesis
    using getBaselineControls_load_succeeds [OF sampleWorld_notLoaded(1), of sampleTable
        sampleWorldLoaded "''MODERATE''"]
    by (simp add: loadedType_def load_sampleWorld u)
qed

lemma getBaselineControls_sampleWorldLoaded:
  "getBaselineControls sampleWorldLoaded ''MODERATE'' ''baseline''
   = (Inr [''ac-1'', ''ac-2'', ''si-4''], sampleWorldLoaded)"
proof -
  have u: "toUpperCase ''MODERATE'' = ''MODERATE''" by code_simp
  have f: "files sampleWorldLoaded ''oscal-content/profiles/baselines/moderate_baseline.json''
           = ProfileJson sampleProfile"
    by (simp add: sampleWorldLoaded_def sampleWorld_def)
  have r: "readBaseline sampleWorldLoaded sampleTable ''MODERATE'' ''baseline''
        = Inr [''ac-1'', ''ac-2'', ''si-4'']"
    by (simp add: readBaseline_def sampleTable_def f collectControlIds_sample)
  have t: "profileTable sampleWorldLoaded ''baseline'' = Some sampleTable"
    by (simp add: profileTable_def sampleWorldLoaded_def)
  have ne: "sampleTable \<noteq> []" by (simp add: sampleTable_def)
  show ?thesis
    using getBaselineControls_loaded [OF t ne, of "''MODERATE''"] by (simp add: u r)
qed
section \<open>Lemmas on the SSP service\<close>



lemma findIndex_Some_lt: "findIndex P xs = Some i \<Longrightarrow> i < length xs \<and> P (xs ! i)"
  by (induction xs arbitrary: i) (auto split: if_splits option.splits)

lemma findIndex_update:
  "findIndex P xs = Some i \<Longrightarrow> P y \<Longrightarrow> findIndex P (xs[i := y]) = Some i"
  by (induction xs arbitrary: i) (auto split: if_splits option.splits)

lemma findIndex_snoc:
  "findIndex P xs = None \<Longrightarrow> P y \<Longrightarrow> findIndex P (xs @ [y]) = Some (length xs)"
  by (induction xs) (auto split: if_splits option.splits)

lemma normalizeControlId_InrE:
  assumes "normalizeControlId t = Inr n"
  obtains p where "parse t = Inr p" and "n = mcp p"
  using assms
  by (auto simp: normalizeControlId_def normalizeText_def split: if_splits sum.splits)

lemma addControlImplementation_no_doc:
  "sspFiles w sid = None \<Longrightarrow>
   addControlImplementation w sid cid st d roles t1 t2 = (Inl (SSPNotFound sid), w)"
  by (simp add: addControlImplementation_def getSSP_def)

lemma addControlImplementation_bad_id:
  "sspFiles w sid = Some doc \<Longrightarrow> parse cid = Inl e \<Longrightarrow>
   addControlImplementation w sid cid st d roles t1 t2 = (Inl e, w)"
  by (simp add: addControlImplementation_def getSSP_def normalizeControlId_error)

lemma addControlImplementation_bad_status:
  "sspFiles w sid = Some doc \<Longrightarrow> parse cid = Inr p \<Longrightarrow> st \<notin> set validStatuses \<Longrightarrow>
   addControlImplementation w sid cid st d roles t1 t2 = (Inl (InvalidImplementationStatus st), w)"
  by (simp add: addControlImplementation_def getSSP_def normalizeControlId_parsed)

lemma addControlImplementation_success:
  assumes "sspFiles w sid = Some doc" and "parse cid = Inr p" and "st \<in> set validStatuses"
  shows "addControlImplementation w sid cid st d roles t1 t2 =
           (Inr (newImplementation (mcp p) st d roles t1),
            w\<lparr>sspFiles := (sspFiles w)(sid \<mapsto>
                 doc\<lparr>controlImplementations :=
                        upsertRecord (newImplementation (mcp p) st d roles t1)
                          (controlImplementations doc),
                      updated := t2\<rparr>)\<rparr>)"
  using assms
  by (simp add: addControlImplementation_def getSSP_def normalizeControlId_parsed Let_def
      newImplementation_def upsertRecord_def)

lemma addControlImplementation_cases:
  obtains (no_doc) "sspFiles w sid = None"
  | (bad_id) doc e where "sspFiles w sid = Some doc" "parse cid = Inl e"
  | (bad_status) doc p where "sspFiles w sid = Some doc" "parse cid = Inr p"
      "st \<notin> set validStatuses"
  | (ok) doc p where "sspFiles w sid = Some doc" "parse cid = Inr p" "st \<in> set validStatuses"
proof (cases "sspFiles w sid")
  case None
  then show ?thesis by (rule no_doc)
next
  case (Some doc)
  show ?thesis
  proof (cases "parse cid")
    case (Inl e)
    with Some show ?thesis by (rule bad_id)
  next
    case (Inr p)
    with Some show ?thesis by (cases "st \<in> set validStatuses") (auto intro: bad_status ok)
  qed
qed

lemma addControlImplementation_error_unchanged:
  assumes "fst (addControlImplementation w sid cid st d roles t1 t2) = Inl e"
  shows "snd (addControlImplementation w sid cid st d roles t1 t2) = w"
proof (cases rule: addControlImplementation_cases [where w = w and sid = sid and cid = cid and st = st])
  case no_doc
  then show ?thesis by (simp add: addControlImplementation_no_doc)
next
  case (bad_id doc e)
  then show ?thesis by (simp add: addControlImplementation_bad_id)
next
  case (bad_status doc p)
  then show ?thesis by (simp add: addControlImplementation_bad_status)
next
  case (ok doc p)
  with assms show ?thesis by (simp add: addControlImplementation_success)
qed

lemma upsertRecord_again:
  assumes "controlId b = controlId a"
  shows "\<exists>j < length (upsertRecord a xs).
           upsertRecord a xs ! j = a
           \<and> upsertRecord b (upsertRecord a xs) = (upsertRecord a xs)[j := b]"
proof (cases "findIndex (\<lambda>impl. controlId impl = controlId a) xs")
  case None
  then have u: "upsertRecord a xs = xs @ [a]" by (simp add: upsertRecord_def)
  have "findIndex (\<lambda>impl. controlId impl = controlId a) (xs @ [a]) = Some (length xs)"
    using None by (simp add: findIndex_snoc)
  then have "upsertRecord b (xs @ [a]) = (xs @ [a])[length xs := b]"
    using assms by (simp add: upsertRecord_def)
  then show ?thesis unfolding u by (intro exI [of _ "length xs"]) simp
next
  case (Some i)
  then have u: "upsertRecord a xs = xs[i := a]" by (simp add: upsertRecord_def)
  have i: "i < length xs" using findIndex_Some_lt [OF Some] by simp
  have "findIndex (\<lambda>impl. controlId impl = controlId a) (xs[i := a]) = Some i"
    using Some by (simp add: findIndex_update)
  then have "upsertRecord b (xs[i := a]) = (xs[i := a])[i := b]"
    using assms by (simp add: upsertRecord_def)
  then show ?thesis unfolding u using i by (intro exI [of _ i]) simp
qed

lemma map_update_same:
  "j < length ys \<Longrightarrow> f b = f (ys ! j) \<Longrightarrow> map f (ys[j := b]) = map f ys"
  by (simp add: map_update list_update_same_conv)

lemma withoutLastUpdated_newImplementation:
  "withoutLastUpdated (newImplementation n st d roles t3)
   = withoutLastUpdated (newImplementation n st d roles t1)"
  by (simp add: withoutLastUpdated_def newImplementation_def)


lemma canonicalText_parsed: "parse t = Inr p \<Longrightarrow> canonicalText t = mcp p"
  by (simp add: canonicalText_def normalizeControlId_parsed)

lemma canonicalOf_None_iff: "canonicalOf t = None \<longleftrightarrow> (\<exists>e. parse t = Inl e)"
  by (cases "parse t") (simp_all add: canonicalOf_def)

lemma canonicalOf_normalized:
  assumes "normalizeControlId t = Inr n"
  shows "canonicalOf n = canonicalOf t" and "normalizeControlId n = Inr n"
    and "canonicalOf t \<noteq> None"
proof -
  from assms obtain p where p: "parse t = Inr p" "n = mcp p"
    by (rule normalizeControlId_InrE)
  have r: "parse n = Inr p" unfolding p(2) using p(1) by (rule parse_mcp_roundtrip)
  show "canonicalOf n = canonicalOf t" by (simp add: canonicalOf_def r p(1))
  show "normalizeControlId n = Inr n" using r by (simp add: normalizeControlId_parsed p(2))
  show "canonicalOf t \<noteq> None" by (simp add: canonicalOf_def p(1))
qed


lemma seedImplementations_ok:
  "\<forall>b \<in> set base. canonicalOf b \<noteq> None \<Longrightarrow>
   seedImplementations base = Inr (map seedRecord base)"
proof (induction base)
  case Nil
  then show ?case by simp
next
  case (Cons b base)
  then obtain p where p: "parse b = Inr p"
    by (cases "parse b") (auto simp: canonicalOf_def)
  from Cons have "seedImplementations base = Inr (map seedRecord base)" by simp
  then show ?case
    by (simp add: normalizeControlId_parsed [OF p] seedRecord_def canonicalText_parsed [OF p])
qed



lemma normalizeAll_InrD:
  "normalizeAll base = Inr nb \<Longrightarrow>
   nb = map canonicalText base \<and> (\<forall>b \<in> set base. canonicalOf b \<noteq> None)"
proof (induction base arbitrary: nb)
  case Nil
  then show ?case by simp
next
  case (Cons b base)
  from Cons.prems obtain n ns where n: "normalizeControlId b = Inr n"
    and ns: "normalizeAll base = Inr ns" and i: "nb = n # ns"
    by (auto split: sum.splits)
  from Cons.IH [OF ns] have ih: "ns = map canonicalText base"
    "\<forall>b \<in> set base. canonicalOf b \<noteq> None" by simp_all
  have "canonicalOf b \<noteq> None" using canonicalOf_normalized(3) [OF n] .
  moreover have "canonicalText b = n" by (simp add: canonicalText_def n)
  ultimately show ?case using ih i by simp
qed


lemma createSSP_invalid_level:
  "securityLevel \<notin> set validLevels \<Longrightarrow>
   createSSP w ttl descr securityLevel systemId freshId freshUuid tm tc tu
   = (Inl (InvalidSecurityLevel securityLevel), w)"
  by (simp add: createSSP_def)

lemma createSSP_baseline_fails:
  "securityLevel \<in> set validLevels \<Longrightarrow>
   getBaselineControls w securityLevel ''baseline'' = (Inl e, w0) \<Longrightarrow>
   createSSP w ttl descr securityLevel systemId freshId freshUuid tm tc tu = (Inl e, w0)"
  by (simp add: createSSP_def Let_def)


lemma createSSP_success:
  assumes "securityLevel \<in> set validLevels"
    and "getBaselineControls w securityLevel ''baseline'' = (Inr base, w0)"
    and "seedImplementations base = Inr impls"
  shows "createSSP w ttl descr securityLevel systemId freshId freshUuid tm tc tu
         = (Inr (newSSP ttl descr securityLevel (chosenId systemId freshId) freshUuid tm tc tu
                   impls),
            w0\<lparr>sspFiles := (sspFiles w0)(chosenId systemId freshId \<mapsto>
                  newSSP ttl descr securityLevel (chosenId systemId freshId) freshUuid tm tc tu
                    impls)\<rparr>)"
  using assms
  by (simp add: createSSP_def Let_def newSSP_def chosenId_def)



lemma seedRecord_fields:
  "status (seedRecord c) = ''PLANNED''" "responsibleRoles (seedRecord c) = []"
  "lastUpdated (seedRecord c) = None"
  "description (seedRecord c) = ''Implementation of '' @ c @ '' is planned.''"
  "controlId (seedRecord c) = canonicalText c"
  by (simp_all add: seedRecord_def)











lemma validateSSP_no_doc:
  "sspFiles w sid = None \<Longrightarrow> validateSSP w sid = (Inl (SSPNotFound sid), w)"
  by (simp add: validateSSP_def getSSP_def)






lemma percentageOf_zero_total: "percentageOf i p 0 = 0"
  by (simp add: percentageOf_def)






section \<open>Lemmas on the sample SSP\<close>


lemma parse_samples:
  "parse ''ac-1'' = Inr (mkParsed ''AC'' 1 None)"
  "parse ''ac-2'' = Inr (mkParsed ''AC'' 2 None)"
  "parse ''si-4'' = Inr (mkParsed ''SI'' 4 None)"
  "parse ''AC-1'' = Inr (mkParsed ''AC'' 1 None)"
  "parse ''AC-2'' = Inr (mkParsed ''AC'' 2 None)"
  "parse ''SI-4'' = Inr (mkParsed ''SI'' 4 None)"
  by code_simp+

lemma mcp_samples:
  "mcp (mkParsed ''AC'' 1 None) = ''AC-1''"
  "mcp (mkParsed ''AC'' 2 None) = ''AC-2''"
  "mcp (mkParsed ''SI'' 4 None) = ''SI-4''"
  by code_simp+

lemma normalizeControlId_samples:
  "normalizeControlId ''ac-1'' = Inr ''AC-1''"
  "normalizeControlId ''ac-2'' = Inr ''AC-2''"
  "normalizeControlId ''si-4'' = Inr ''SI-4''"
  "normalizeControlId ''AC-1'' = Inr ''AC-1''"
  "normalizeControlId ''AC-2'' = Inr ''AC-2''"
  "normalizeControlId ''SI-4'' = Inr ''SI-4''"
  by code_simp+

lemma seedImplementations_sample:
  "seedImplementations [''ac-1'', ''ac-2'', ''si-4''] = Inr (controlImplementations sampleDoc)"
  by (simp add: normalizeControlId_samples sampleDoc_def)

lemma createSSP_sampleWorld:
  "createSSP sampleWorld ''Sample System'' ''A sample system'' ''MODERATE'' (Some ''doc'')
     ''uuid-1'' ''uuid-2'' ''t0'' ''t0'' ''t0'' = (Inr sampleDoc, createdWorld)"
  by (simp add: createSSP_def validLevels_def getBaselineControls_sampleWorld
      seedImplementations_sample Let_def createdWorld_def del: seedImplementations.simps,
      simp add: sampleDoc_def)

lemma createdWorld_doc: "sspFiles createdWorld ''doc'' = Some sampleDoc"
  by (simp add: createdWorld_def)

lemma valid_status_samples:
  "''IMPLEMENTED'' \<in> set validStatuses" "''PARTIALLY_IMPLEMENTED'' \<in> set validStatuses"
  "''DONE'' \<notin> set validStatuses"
  by (simp_all add: validStatuses_def)


lemma step1_call:
  "addControlImplementation createdWorld ''doc'' ''AC-1'' ''IMPLEMENTED'' ''Policy is in place.''
     (Some [''security-team'']) ''t1'' ''t1''
   = (Inr \<lparr> controlId = ''AC-1'', status = ''IMPLEMENTED'',
             description = ''Policy is in place.'',
             responsibleRoles = [''security-team''], lastUpdated = Some ''t1'' \<rparr>,
      step1World)"
proof -
  have u: "upsertRecord (newImplementation ''AC-1'' ''IMPLEMENTED'' ''Policy is in place.''
              (Some [''security-team'']) ''t1'') (controlImplementations sampleDoc)
           = controlImplementations step1Doc"
    by (simp add: upsertRecord_def newImplementation_def sampleDoc_def step1Doc_def)
  show ?thesis
    using addControlImplementation_success [OF createdWorld_doc parse_samples(4)
        valid_status_samples(1), of "''Policy is in place.''" "Some [''security-team'']"
        "''t1''" "''t1''"]
    unfolding mcp_samples u
    by (simp add: newImplementation_def createdWorld_def step1World_def step1Doc_def)
qed

lemma step1World_doc: "sspFiles step1World ''doc'' = Some step1Doc"
  by (simp add: step1World_def)




lemma sampleDoc_newSSP:
  "sampleDoc = newSSP ''Sample System'' ''A sample system'' ''MODERATE'' ''doc'' ''uuid-2''
      ''t0'' ''t0'' ''t0'' (controlImplementations sampleDoc)"
  by (simp add: sampleDoc_def newSSP_def)




lemma canonicalOf_samples:
  "canonicalOf ''AC-1'' = Some (''AC'', 1, None)"
  "canonicalOf ''AC-2'' = Some (''AC'', 2, None)"
  "canonicalOf ''SI-4'' = Some (''SI'', 4, None)"
  "canonicalOf ''ac-1'' = Some (''AC'', 1, None)"
  "canonicalOf ''ac-2'' = Some (''AC'', 2, None)"
  "canonicalOf ''si-4'' = Some (''SI'', 4, None)"
  by code_simp+


















section \<open>Lemmas on missing controls\<close>




lemma canonical_sample_ids:
  "canonicalOf ''ac-1'' \<noteq> None" "canonicalOf ''ac-2'' \<noteq> None"
  "canonicalOf ''si-4'' \<noteq> None"
  by (simp_all add: canonicalOf_samples)

section \<open>The claims\<close>

subsection \<open>Claim C3\<close>




subsection \<open>Claim C4\<close>




subsection \<open>Claim C1\<close>





subsection \<open>Claim C2\<close>




subsection \<open>Claim C5\<close>

text \<open>
  Claim C5, as the code has it. \<open>createSSP\<close> fails with \<open>InvalidSecurityLevel\<close>, and
  changes nothing, when the level is not exactly \<open>LOW\<close>, \<open>MODERATE\<close> or \<open>HIGH\<close>. For a
  valid level it fails with the error of \<open>getBaselineControls\<close> when the baseline cannot
  be resolved. When the baseline resolves and all its entries parse, it returns and stores
  a document with one record for each entry of the baseline, in order: the identifier in
  hyphen form, status \<open>PLANNED\<close>, no responsible roles, no time stamp, and the description
  \<^verbatim>\<open>Implementation of <entry> is planned.\<close> (not an empty one). For a baseline that
  resolves to \<open>AC-1\<close>, \<open>AC-2\<close>, \<open>SI-4\<close> the document has exactly three records, all
  \<open>PLANNED\<close>.
\<close>

theorem createSSP_seeds_baseline:
  "(securityLevel \<notin> set validLevels
      \<longrightarrow> createSSP w ttl descr securityLevel systemId freshId freshUuid tm tc tu
            = (Inl (InvalidSecurityLevel securityLevel), w))
   \<and> (\<forall>e w0. securityLevel \<in> set validLevels
         \<and> getBaselineControls w securityLevel ''baseline'' = (Inl e, w0)
      \<longrightarrow> createSSP w ttl descr securityLevel systemId freshId freshUuid tm tc tu = (Inl e, w0))
   \<and> (\<forall>base w0. securityLevel \<in> set validLevels
         \<and> getBaselineControls w securityLevel ''baseline'' = (Inr base, w0)
         \<and> (\<forall>b \<in> set base. canonicalOf b \<noteq> None)
      \<longrightarrow> createSSP w ttl descr securityLevel systemId freshId freshUuid tm tc tu
            = (Inr (newSSP ttl descr securityLevel (chosenId systemId freshId) freshUuid
                      tm tc tu (map seedRecord base)),
               w0\<lparr>sspFiles := (sspFiles w0)(chosenId systemId freshId \<mapsto>
                     newSSP ttl descr securityLevel (chosenId systemId freshId) freshUuid
                       tm tc tu (map seedRecord base))\<rparr>)
          \<and> length (map seedRecord base) = length base
          \<and> map controlId (map seedRecord base) = map canonicalText base
          \<and> map description (map seedRecord base)
              = map (\<lambda>c. ''Implementation of '' @ c @ '' is planned.'') base
          \<and> (\<forall>r \<in> set (map seedRecord base).
                status r = ''PLANNED'' \<and> responsibleRoles r = [] \<and> lastUpdated r = None))
   \<and> (\<forall>w0. securityLevel \<in> set validLevels
         \<and> getBaselineControls w securityLevel ''baseline''
             = (Inr [''AC-1'', ''AC-2'', ''SI-4''], w0)
      \<longrightarrow> (\<exists>doc wc.
             createSSP w ttl descr securityLevel systemId freshId freshUuid tm tc tu
               = (Inr doc, wc)
           \<and> sspFiles wc (chosenId systemId freshId) = Some doc
           \<and> length (controlImplementations doc) = 3
           \<and> map controlId (controlImplementations doc) = [''AC-1'', ''AC-2'', ''SI-4'']
           \<and> map status (controlImplementations doc) = [''PLANNED'', ''PLANNED'', ''PLANNED'']))"
proof (intro conjI allI impI)
  assume "securityLevel \<notin> set validLevels"
  then show "createSSP w ttl descr securityLevel systemId freshId freshUuid tm tc tu
            = (Inl (InvalidSecurityLevel securityLevel), w)"
    by (rule createSSP_invalid_level)
next
  fix e w0
  assume "securityLevel \<in> set validLevels
         \<and> getBaselineControls w securityLevel ''baseline'' = (Inl e, w0)"
  then show "createSSP w ttl descr securityLevel systemId freshId freshUuid tm tc tu = (Inl e, w0)"
    by (simp add: createSSP_baseline_fails)
next
  fix base w0
  assume a: "securityLevel \<in> set validLevels
         \<and> getBaselineControls w securityLevel ''baseline'' = (Inr base, w0)
         \<and> (\<forall>b \<in> set base. canonicalOf b \<noteq> None)"
  then have s: "seedImplementations base = Inr (map seedRecord base)"
    by (simp add: seedImplementations_ok)
  from a have l: "securityLevel \<in> set validLevels"
    and g: "getBaselineControls w securityLevel ''baseline'' = (Inr base, w0)" by simp_all
  show "createSSP w ttl descr securityLevel systemId freshId freshUuid tm tc tu
            = (Inr (newSSP ttl descr securityLevel (chosenId systemId freshId) freshUuid
                      tm tc tu (map seedRecord base)),
               w0\<lparr>sspFiles := (sspFiles w0)(chosenId systemId freshId \<mapsto>
                     newSSP ttl descr securityLevel (chosenId systemId freshId) freshUuid
                       tm tc tu (map seedRecord base))\<rparr>)"
    using l g s by (rule createSSP_success)
  show "length (map seedRecord base) = length base" by simp
  show "map controlId (map seedRecord base) = map canonicalText base"
    by (simp add: seedRecord_fields)
  show "map description (map seedRecord base)
              = map (\<lambda>c. ''Implementation of '' @ c @ '' is planned.'') base"
    by (simp add: seedRecord_fields)
  show "\<forall>r \<in> set (map seedRecord base).
                status r = ''PLANNED'' \<and> responsibleRoles r = [] \<and> lastUpdated r = None"
    by (auto simp: seedRecord_fields)
next
  fix w0
  assume a: "securityLevel \<in> set validLevels
         \<and> getBaselineControls w securityLevel ''baseline''
             = (Inr [''AC-1'', ''AC-2'', ''SI-4''], w0)"
  have c: "\<forall>b \<in> set [''AC-1'', ''AC-2'', ''SI-4'']. canonicalOf b \<noteq> None"
    by (simp add: canonicalOf_def parse_samples)
  have s: "seedImplementations [''AC-1'', ''AC-2'', ''SI-4'']
           = Inr (map seedRecord [''AC-1'', ''AC-2'', ''SI-4''])"
    using c by (rule seedImplementations_ok)
  have t: "canonicalText ''AC-1'' = ''AC-1''" "canonicalText ''AC-2'' = ''AC-2''"
    "canonicalText ''SI-4'' = ''SI-4''"
    by (simp_all add: canonicalText_def normalizeControlId_samples)
  let ?doc = "newSSP ttl descr securityLevel (chosenId systemId freshId) freshUuid
                      tm tc tu (map seedRecord [''AC-1'', ''AC-2'', ''SI-4''])"
  from a have "createSSP w ttl descr securityLevel systemId freshId freshUuid tm tc tu
         = (Inr ?doc, w0\<lparr>sspFiles := (sspFiles w0)(chosenId systemId freshId \<mapsto> ?doc)\<rparr>)"
    using createSSP_success [OF _ _ s] by simp
  moreover have "map controlId (controlImplementations ?doc) = [''AC-1'', ''AC-2'', ''SI-4'']"
    by (simp add: newSSP_def seedRecord_fields t)
  moreover have "map status (controlImplementations ?doc)
                 = [''PLANNED'', ''PLANNED'', ''PLANNED'']"
    by (simp add: newSSP_def seedRecord_fields)
  moreover have "length (controlImplementations ?doc) = 3" by (simp add: newSSP_def)
  ultimately show "\<exists>doc wc.
             createSSP w ttl descr securityLevel systemId freshId freshUuid tm tc tu
               = (Inr doc, wc)
           \<and> sspFiles wc (chosenId systemId freshId) = Some doc
           \<and> length (controlImplementations doc) = 3
           \<and> map controlId (controlImplementations doc) = [''AC-1'', ''AC-2'', ''SI-4'']
           \<and> map status (controlImplementations doc) = [''PLANNED'', ''PLANNED'', ''PLANNED'']"
    by (intro exI [of _ ?doc]
        exI [of _ "w0\<lparr>sspFiles := (sspFiles w0)(chosenId systemId freshId \<mapsto> ?doc)\<rparr>"]) simp
qed

theorem createSSP_seeds_baseline_witness:
  "''low'' \<notin> set validLevels
   \<and> createSSP sampleWorld ''Sample System'' ''A sample system'' ''low'' (Some ''doc'')
       ''uuid-1'' ''uuid-2'' ''t0'' ''t0'' ''t0'' = (Inl (InvalidSecurityLevel ''low''), sampleWorld)
   \<and> ''MODERATE'' \<in> set validLevels
   \<and> getBaselineControls sampleWorld ''MODERATE'' ''baseline''
       = (Inr [''ac-1'', ''ac-2'', ''si-4''], sampleWorldLoaded)
   \<and> canonicalOf ''ac-1'' \<noteq> None \<and> canonicalOf ''ac-2'' \<noteq> None
   \<and> canonicalOf ''si-4'' \<noteq> None
   \<and> createSSP sampleWorld ''Sample System'' ''A sample system'' ''MODERATE'' (Some ''doc'')
       ''uuid-1'' ''uuid-2'' ''t0'' ''t0'' ''t0'' = (Inr sampleDoc, createdWorld)
   \<and> map controlId (controlImplementations sampleDoc) = [''AC-1'', ''AC-2'', ''SI-4'']
   \<and> map status (controlImplementations sampleDoc) = [''PLANNED'', ''PLANNED'', ''PLANNED'']
   \<and> ''HIGH'' \<in> set validLevels
   \<and> getBaselineControls sampleWorld ''HIGH'' ''baseline''
       = (Inl (SecurityLevelNotFound ''HIGH'' ''baseline''), sampleWorldLoaded)
   \<and> createSSP sampleWorld ''Sample System'' ''A sample system'' ''HIGH'' (Some ''doc'')
       ''uuid-1'' ''uuid-2'' ''t0'' ''t0'' ''t0''
       = (Inl (SecurityLevelNotFound ''HIGH'' ''baseline''), sampleWorldLoaded)"
proof -
  have l: "''low'' \<notin> set validLevels" "''MODERATE'' \<in> set validLevels"
    "''HIGH'' \<in> set validLevels"
    by (simp_all add: validLevels_def)
  have c: "\<forall>b \<in> set [''ac-1'', ''ac-2'', ''si-4'']. canonicalOf b \<noteq> None"
    by (simp add: canonicalOf_def parse_samples)
  have u: "toUpperCase ''HIGH'' = ''HIGH''" by code_simp
  have h: "getBaselineControls sampleWorld ''HIGH'' ''baseline''
       = (Inl (SecurityLevelNotFound ''HIGH'' ''baseline''), sampleWorldLoaded)"
    using getBaselineControls_load_succeeds [OF sampleWorld_notLoaded(1), of sampleTable
        sampleWorldLoaded "''HIGH''"]
    by (simp add: loadedType_def load_sampleWorld u readBaseline_def sampleTable_def)
  note t1 = createSSP_seeds_baseline [of "''low''" sampleWorld "''Sample System''"
      "''A sample system''" "Some ''doc''" "''uuid-1''" "''uuid-2''" "''t0''" "''t0''" "''t0''"]
  note t2 = createSSP_seeds_baseline [of "''HIGH''" sampleWorld "''Sample System''"
      "''A sample system''" "Some ''doc''" "''uuid-1''" "''uuid-2''" "''t0''" "''t0''" "''t0''"]
  have 1: "createSSP sampleWorld ''Sample System'' ''A sample system'' ''low'' (Some ''doc'')
       ''uuid-1'' ''uuid-2'' ''t0'' ''t0'' ''t0'' = (Inl (InvalidSecurityLevel ''low''), sampleWorld)"
    using t1 l(1) by blast
  have 2: "createSSP sampleWorld ''Sample System'' ''A sample system'' ''HIGH'' (Some ''doc'')
       ''uuid-1'' ''uuid-2'' ''t0'' ''t0'' ''t0''
       = (Inl (SecurityLevelNotFound ''HIGH'' ''baseline''), sampleWorldLoaded)"
    using t2 l(3) h by blast
  have 3: "map controlId (controlImplementations sampleDoc) = [''AC-1'', ''AC-2'', ''SI-4'']"
    "map status (controlImplementations sampleDoc) = [''PLANNED'', ''PLANNED'', ''PLANNED'']"
    by (simp_all add: sampleDoc_def)
  show ?thesis
    using 1 2 3 l canonical_sample_ids h getBaselineControls_sampleWorld createSSP_sampleWorld
    by blast
qed

text \<open>
  The claim as it was stated, with empty descriptions, fails on the sample store: the
  seeded records carry the description text.
\<close>

theorem createSSP_description_counterexample:
  "createSSP sampleWorld ''Sample System'' ''A sample system'' ''MODERATE'' (Some ''doc'')
       ''uuid-1'' ''uuid-2'' ''t0'' ''t0'' ''t0'' = (Inr sampleDoc, createdWorld)
   \<and> map description (controlImplementations sampleDoc)
       = [''Implementation of ac-1 is planned.'', ''Implementation of ac-2 is planned.'',
          ''Implementation of si-4 is planned.'']
   \<and> description (hd (controlImplementations sampleDoc)) \<noteq> []"
  using createSSP_sampleWorld by (simp add: sampleDoc_def)


subsection \<open>Claim C6\<close>





subsection \<open>Claim C7\<close>

text \<open>
  Claim C7, for the service that reads profile documents (\<open>getBaselineControls\<close> with
  \<open>loadBaselineProfiles\<close>). It never returns the empty list. When the profile table of
  the requested type is loaded, or can be loaded, and has no entry for the upper-cased
  level, it fails with \<open>SecurityLevelNotFound\<close>; when the table cannot be loaded it fails
  with the error of \<open>loadBaselineProfiles\<close> (no directory, no JSON file, or no file name
  that names a level); when the profile document of the level is read and lists no
  control it fails with \<open>NoControlsFound\<close>.
\<close>

theorem getBaselineControls_never_empty:
  "fst (getBaselineControls w securityLevel profileType) \<noteq> Inr []
   \<and> (\<forall>table. profileTable w profileType = Some table \<and> table \<noteq> []
         \<and> map_of table (toUpperCase securityLevel) = None
       \<longrightarrow> getBaselineControls w securityLevel profileType
             = (Inl (SecurityLevelNotFound (toUpperCase securityLevel) profileType), w))
   \<and> (\<forall>found w1. notLoaded (profileTable w profileType)
         \<and> loadBaselineProfiles w (loadedType profileType) = (Inr found, w1)
         \<and> map_of found (toUpperCase securityLevel) = None
       \<longrightarrow> getBaselineControls w securityLevel profileType
             = (Inl (SecurityLevelNotFound (toUpperCase securityLevel) profileType), w1))
   \<and> (\<forall>e w1. notLoaded (profileTable w profileType)
         \<and> loadBaselineProfiles w (loadedType profileType) = (Inl e, w1)
       \<longrightarrow> getBaselineControls w securityLevel profileType = (Inl e, w1)
           \<and> e \<in> {ProfilesDirectoryNotFound
                      (if profileType = ''fedramp'' then fedrampPath w else baselinesPath w),
                    ReaddirFailed
                      (if profileType = ''fedramp'' then fedrampPath w else baselinesPath w),
                    NoProfileJsonFiles
                      (if profileType = ''fedramp'' then fedrampPath w else baselinesPath w),
                    NoSecurityLevelsIdentified})
   \<and> (\<forall>table info doc. profileTable w profileType = Some table \<and> table \<noteq> []
         \<and> map_of table (toUpperCase securityLevel) = Some info \<and> path info \<noteq> []
         \<and> files w (path info) = ProfileJson doc \<and> collectControlIds doc = []
       \<longrightarrow> getBaselineControls w securityLevel profileType
             = (Inl (NoControlsFound (path info)), w))
   \<and> (\<forall>found w1 info doc. notLoaded (profileTable w profileType)
         \<and> loadBaselineProfiles w (loadedType profileType) = (Inr found, w1)
         \<and> map_of found (toUpperCase securityLevel) = Some info \<and> path info \<noteq> []
         \<and> files w (path info) = ProfileJson doc \<and> collectControlIds doc = []
       \<longrightarrow> getBaselineControls w securityLevel profileType
             = (Inl (NoControlsFound (path info)), w1))"
proof (intro conjI allI impI)
  show "fst (getBaselineControls w securityLevel profileType) \<noteq> Inr []"
    by (rule getBaselineControls_nonempty)
next
  fix table
  assume "profileTable w profileType = Some table \<and> table \<noteq> []
         \<and> map_of table (toUpperCase securityLevel) = None"
  then show "getBaselineControls w securityLevel profileType
             = (Inl (SecurityLevelNotFound (toUpperCase securityLevel) profileType), w)"
    by (simp add: getBaselineControls_loaded readBaseline_not_found)
next
  fix found w1
  assume "notLoaded (profileTable w profileType)
         \<and> loadBaselineProfiles w (loadedType profileType) = (Inr found, w1)
         \<and> map_of found (toUpperCase securityLevel) = None"
  then show "getBaselineControls w securityLevel profileType
             = (Inl (SecurityLevelNotFound (toUpperCase securityLevel) profileType), w1)"
    by (simp add: getBaselineControls_load_succeeds readBaseline_not_found)
next
  fix e w1
  assume a: "notLoaded (profileTable w profileType)
         \<and> loadBaselineProfiles w (loadedType profileType) = (Inl e, w1)"
  then show "getBaselineControls w securityLevel profileType = (Inl e, w1)"
    by (simp add: getBaselineControls_load_fails)
  from a have "loadBaselineProfiles w (loadedType profileType) = (Inl e, w1)" by simp
  from loadBaselineProfiles_error [OF this]
  show "e \<in> {ProfilesDirectoryNotFound
                      (if profileType = ''fedramp'' then fedrampPath w else baselinesPath w),
                    ReaddirFailed
                      (if profileType = ''fedramp'' then fedrampPath w else baselinesPath w),
                    NoProfileJsonFiles
                      (if profileType = ''fedramp'' then fedrampPath w else baselinesPath w),
                    NoSecurityLevelsIdentified}"
    by (simp add: loadedType_def split: if_splits)
next
  fix table info doc
  assume "profileTable w profileType = Some table \<and> table \<noteq> []
         \<and> map_of table (toUpperCase securityLevel) = Some info \<and> path info \<noteq> []
         \<and> files w (path info) = ProfileJson doc \<and> collectControlIds doc = []"
  then show "getBaselineControls w securityLevel profileType
             = (Inl (NoControlsFound (path info)), w)"
    by (simp add: getBaselineControls_loaded readBaseline_no_controls)
next
  fix found w1 info doc
  assume a: "notLoaded (profileTable w profileType)
         \<and> loadBaselineProfiles w (loadedType profileType) = (Inr found, w1)
         \<and> map_of found (toUpperCase securityLevel) = Some info \<and> path info \<noteq> []
         \<and> files w (path info) = ProfileJson doc \<and> collectControlIds doc = []"
  then have l: "loadBaselineProfiles w (loadedType profileType) = (Inr found, w1)" by simp
  have "files w1 = files w"
    using l loadBaselineProfiles_baseline [of w found w1]
      loadBaselineProfiles_fedramp [of w found w1]
    by (cases "profileType = ''fedramp''") (simp_all add: loadedType_def)
  with a show "getBaselineControls w securityLevel profileType
             = (Inl (NoControlsFound (path info)), w1)"
    by (simp add: getBaselineControls_load_succeeds readBaseline_no_controls)
qed


theorem getBaselineControls_never_empty_witness:
  "notLoaded (profileTable sampleWorld ''baseline'')
   \<and> loadBaselineProfiles sampleWorld (loadedType ''baseline'') = (Inr sampleTable, sampleWorldLoaded)
   \<and> map_of sampleTable (toUpperCase ''low'') = None
   \<and> getBaselineControls sampleWorld ''low'' ''baseline''
       = (Inl (SecurityLevelNotFound ''LOW'' ''baseline''), sampleWorldLoaded)
   \<and> notLoaded (profileTable emptyProfileWorld ''baseline'')
   \<and> loadBaselineProfiles emptyProfileWorld (loadedType ''baseline'')
       = (Inr sampleTable, emptyProfileWorldLoaded)
   \<and> getBaselineControls emptyProfileWorld ''moderate'' ''baseline''
       = (Inl (NoControlsFound ''oscal-content/profiles/baselines/moderate_baseline.json''),
          emptyProfileWorldLoaded)
   \<and> fst (getBaselineControls sampleWorld ''MODERATE'' ''baseline'')
       = Inr [''ac-1'', ''ac-2'', ''si-4'']"
proof -
  have u: "toUpperCase ''low'' = ''LOW''" by code_simp
  have v: "toUpperCase ''moderate'' = ''MODERATE''" by code_simp
  have lt: "loadedType ''baseline'' = ''baseline''" by (simp add: loadedType_def)
  have m: "map_of sampleTable ''LOW'' = None" by (simp add: sampleTable_def)
  have i: "map_of sampleTable ''MODERATE''
           = Some \<lparr> profileId = ''moderate_baseline'',
                    profileTitle = '' Moderate Impact Baseline'',
                    path = ''oscal-content/profiles/baselines/moderate_baseline.json'' \<rparr>"
    by (simp add: sampleTable_def)
  have f: "files emptyProfileWorld ''oscal-content/profiles/baselines/moderate_baseline.json''
           = ProfileJson (ProfileDoc (Some [ImportObj None]))"
    by (simp add: emptyProfileWorld_def)
  have c: "collectControlIds (ProfileDoc (Some [ImportObj None])) = []"
    by (simp add: collectControlIds_def)
  note t1 = getBaselineControls_never_empty [of sampleWorld "''low''" "''baseline''"]
  note t2 = getBaselineControls_never_empty [of emptyProfileWorld "''moderate''" "''baseline''"]
  have a: "getBaselineControls sampleWorld ''low'' ''baseline''
       = (Inl (SecurityLevelNotFound ''LOW'' ''baseline''), sampleWorldLoaded)"
    using t1 sampleWorld_notLoaded(1) load_sampleWorld m by (simp add: u lt)
  have b: "getBaselineControls emptyProfileWorld ''moderate'' ''baseline''
       = (Inl (NoControlsFound ''oscal-content/profiles/baselines/moderate_baseline.json''),
          emptyProfileWorldLoaded)"
    using t2 sampleWorld_notLoaded(2) load_emptyProfileWorld i f c by (simp add: v lt)
  show ?thesis
    using a b sampleWorld_notLoaded load_sampleWorld load_emptyProfileWorld m
      getBaselineControls_sampleWorld
    by (simp add: u lt)
qed

text \<open>
  The earlier variant of the service, with its fixed table, does return the empty list
  for a level that no baseline is known for, so the claim does not hold of it.
\<close>

theorem getBaselineControlsPlaceholder_counterexample:
  "map_of placeholderBaselines ''UNKNOWN'' = None
   \<and> getBaselineControlsPlaceholder ''UNKNOWN'' = Inr []"
  by (simp add: getBaselineControlsPlaceholder_def placeholderBaselines_def)


subsection \<open>Claim C8\<close>

text \<open>
  Claim C8. When a call of \<open>addControlImplementation\<close> succeeds, the same call made again
  on the resulting state succeeds too, and leaves the SSP with the same number of records,
  the same records up to their time stamp \<open>lastUpdated\<close>, and the same other fields up to
  the time stamp \<open>updated\<close>; the record it returns is the first one with the new time
  stamp, and no other SSP is touched.
\<close>

theorem addControlImplementation_idempotent:
  assumes "addControlImplementation w sid cid st d roles t1 t2 = (Inr impl1, w1)"
  shows "\<exists>doc1 impl2 doc2 w2.
           sspFiles w1 sid = Some doc1
         \<and> addControlImplementation w1 sid cid st d roles t3 t4 = (Inr impl2, w2)
         \<and> sspFiles w2 sid = Some doc2
         \<and> impl2 = impl1\<lparr>lastUpdated := Some t3\<rparr>
         \<and> length (controlImplementations doc2) = length (controlImplementations doc1)
         \<and> map withoutLastUpdated (controlImplementations doc2)
             = map withoutLastUpdated (controlImplementations doc1)
         \<and> doc2 = doc1\<lparr>controlImplementations := controlImplementations doc2, updated := t4\<rparr>
         \<and> (\<forall>s. s \<noteq> sid \<longrightarrow> sspFiles w2 s = sspFiles w1 s)"
proof (cases rule: addControlImplementation_cases [where w = w and sid = sid and cid = cid and st = st])
  case no_doc
  with assms show ?thesis by (simp add: addControlImplementation_no_doc)
next
  case (bad_id doc e)
  with assms show ?thesis by (simp add: addControlImplementation_bad_id)
next
  case (bad_status doc p)
  with assms show ?thesis by (simp add: addControlImplementation_bad_status)
next
  case (ok doc p)
  define a where "a = newImplementation (mcp p) st d roles t1"
  define b where "b = newImplementation (mcp p) st d roles t3"
  define xs where "xs = upsertRecord a (controlImplementations doc)"
  define doc1 where "doc1 = doc\<lparr>controlImplementations := xs, updated := t2\<rparr>"
  define doc2 where "doc2 = doc1\<lparr>controlImplementations := upsertRecord b xs, updated := t4\<rparr>"
  have first: "addControlImplementation w sid cid st d roles t1 t2
               = (Inr a, w\<lparr>sspFiles := (sspFiles w)(sid \<mapsto> doc1)\<rparr>)"
    using addControlImplementation_success [OF ok, of d roles t1 t2]
    by (simp add: a_def xs_def doc1_def)
  with assms have i1: "impl1 = a" and w1: "w1 = w\<lparr>sspFiles := (sspFiles w)(sid \<mapsto> doc1)\<rparr>"
    by simp_all
  have d1: "sspFiles w1 sid = Some doc1" by (simp add: w1)
  have second: "addControlImplementation w1 sid cid st d roles t3 t4
               = (Inr b, w1\<lparr>sspFiles := (sspFiles w1)(sid \<mapsto> doc2)\<rparr>)"
    using addControlImplementation_success [OF d1 ok(2,3), of d roles t3 t4]
    by (simp add: b_def doc2_def doc1_def)
  have cb: "controlId b = controlId a" by (simp add: a_def b_def newImplementation_def)
  from upsertRecord_again [OF cb, of "controlImplementations doc"]
  obtain j where j: "j < length xs" "xs ! j = a" "upsertRecord b xs = xs[j := b]"
    by (auto simp: xs_def)
  have wb: "withoutLastUpdated b = withoutLastUpdated (xs ! j)"
    using j(2) by (simp add: a_def b_def withoutLastUpdated_newImplementation)
  have m: "map withoutLastUpdated (upsertRecord b xs) = map withoutLastUpdated xs"
    unfolding j(3) using j(1) wb by (rule map_update_same)
  have l: "length (upsertRecord b xs) = length xs" by (simp add: j(3))
  have ba: "b = impl1\<lparr>lastUpdated := Some t3\<rparr>"
    by (simp add: i1 a_def b_def newImplementation_def)
  let ?w2 = "w1\<lparr>sspFiles := (sspFiles w1)(sid \<mapsto> doc2)\<rparr>"
  have "sspFiles w1 sid = Some doc1
         \<and> addControlImplementation w1 sid cid st d roles t3 t4 = (Inr b, ?w2)
         \<and> sspFiles ?w2 sid = Some doc2
         \<and> b = impl1\<lparr>lastUpdated := Some t3\<rparr>
         \<and> length (controlImplementations doc2) = length (controlImplementations doc1)
         \<and> map withoutLastUpdated (controlImplementations doc2)
             = map withoutLastUpdated (controlImplementations doc1)
         \<and> doc2 = doc1\<lparr>controlImplementations := controlImplementations doc2, updated := t4\<rparr>
         \<and> (\<forall>s. s \<noteq> sid \<longrightarrow> sspFiles ?w2 s = sspFiles w1 s)"
    using d1 second ba l m by (simp add: doc2_def doc1_def)
  then show ?thesis by blast
qed


theorem addControlImplementation_idempotent_witness:
  "addControlImplementation createdWorld ''doc'' ''AC-1'' ''IMPLEMENTED'' ''Policy is in place.''
     (Some [''security-team'']) ''t1'' ''t1''
   = (Inr \<lparr> controlId = ''AC-1'', status = ''IMPLEMENTED'',
             description = ''Policy is in place.'',
             responsibleRoles = [''security-team''], lastUpdated = Some ''t1'' \<rparr>,
      step1World)
   \<and> (\<exists>doc1 impl2 doc2 w2.
           sspFiles step1World ''doc'' = Some doc1
         \<and> addControlImplementation step1World ''doc'' ''AC-1'' ''IMPLEMENTED''
              ''Policy is in place.'' (Some [''security-team'']) ''t3'' ''t4'' = (Inr impl2, w2)
         \<and> sspFiles w2 ''doc'' = Some doc2
         \<and> impl2 = \<lparr> controlId = ''AC-1'', status = ''IMPLEMENTED'',
                      description = ''Policy is in place.'',
                      responsibleRoles = [''security-team''], lastUpdated = Some ''t3'' \<rparr>
         \<and> length (controlImplementations doc2) = 3
         \<and> map withoutLastUpdated (controlImplementations doc2)
             = map withoutLastUpdated (controlImplementations doc1))"
proof -
  from addControlImplementation_idempotent [OF step1_call, of "''t3''" "''t4''"]
  obtain doc1 impl2 doc2 w2 where r:
    "sspFiles step1World ''doc'' = Some doc1"
    "addControlImplementation step1World ''doc'' ''AC-1'' ''IMPLEMENTED''
       ''Policy is in place.'' (Some [''security-team'']) ''t3'' ''t4'' = (Inr impl2, w2)"
    "sspFiles w2 ''doc'' = Some doc2"
    "impl2 = \<lparr> controlId = ''AC-1'', status = ''IMPLEMENTED'',
                description = ''Policy is in place.'',
                responsibleRoles = [''security-team''], lastUpdated = Some ''t1'' \<rparr>
              \<lparr>lastUpdated := Some ''t3''\<rparr>"
    "length (controlImplementations doc2) = length (controlImplementations doc1)"
    "map withoutLastUpdated (controlImplementations doc2)
       = map withoutLastUpdated (controlImplementations doc1)"
    by blast
  from r(1) have "doc1 = step1Doc" by (simp add: step1World_doc)
  then have "length (controlImplementations doc1) = 3"
    by (simp add: step1Doc_def)
  with r step1_call show ?thesis by auto
qed


subsection \<open>Claim C9\<close>

text \<open>
  Claim C9, as the code has it. \<open>getControl\<close> never looks into the catalog (whose table
  of controls is empty) and has no error for a control that is not found: for every
  identifier that parses it returns a synthesized record, whose identifier is the hyphen
  rendering, whose title and description are built from that rendering and whose family
  is the family of the identifier; it fails, with the error of the parser, exactly for
  the texts that do not parse.
\<close>

theorem getControl_synthesized:
  "(\<forall>p. parse cid = Inr p \<longrightarrow>
       getControl cid includeEnhancements =
         Inr \<lparr> ctlId = mcp p, ctlTitle = ''Control '' @ mcp p,
               ctlDescription = ''This is a placeholder for control '' @ mcp p,
               ctlFamily = family p,
               enhancements = (if includeEnhancements then Some [] else None) \<rparr>)
   \<and> (\<forall>e. parse cid = Inl e \<longrightarrow> getControl cid includeEnhancements = Inl e)"
proof (intro conjI allI impI)
  fix p assume a: "parse cid = Inr p"
  have w: "wfFamily (family p)" using parse_shape [OF a] by simp
  have m: "mcp p = renderMcp (family p) (number p) (enhancement p)"
    using a by (rule parsed_renderings)
  have s: "splitHead CHR ''-'' (mcp p) = family p"
    unfolding m using w by (rule splitHead_family)
  show "getControl cid includeEnhancements =
         Inr \<lparr> ctlId = mcp p, ctlTitle = ''Control '' @ mcp p,
               ctlDescription = ''This is a placeholder for control '' @ mcp p,
               ctlFamily = family p,
               enhancements = (if includeEnhancements then Some [] else None) \<rparr>"
    using wfFamily_nonempty [OF w]
    by (simp add: getControl_def normalizeControlId_parsed [OF a] s)
next
  fix e assume "parse cid = Inl e"
  then show "getControl cid includeEnhancements = Inl e"
    by (simp add: getControl_def normalizeControlId_error)
qed

theorem getControl_synthesized_witness:
  "parse ''si.4.2'' = Inr (mkParsed ''SI'' 4 (Some 2))
   \<and> getControl ''si.4.2'' True =
       Inr \<lparr> ctlId = ''SI-4(2)'', ctlTitle = ''Control SI-4(2)'',
             ctlDescription = ''This is a placeholder for control SI-4(2)'',
             ctlFamily = ''SI'', enhancements = Some [] \<rparr>
   \<and> parse ''access control'' = Inl (InvalidControlIdFormat ''access control'')
   \<and> getControl ''access control'' True = Inl (InvalidControlIdFormat ''access control'')"
proof -
  have a: "parse ''si.4.2'' = Inr (mkParsed ''SI'' 4 (Some 2))" by code_simp
  have b: "parse ''access control'' = Inl (InvalidControlIdFormat ''access control'')"
    by code_simp
  have m: "mcp (mkParsed ''SI'' 4 (Some 2)) = ''SI-4(2)''" by code_simp
  have f: "family (mkParsed ''SI'' 4 (Some 2)) = ''SI''" by (simp add: mkParsed_def)
  from getControl_synthesized [of "''si.4.2''" True] a
  have 1: "getControl ''si.4.2'' True =
       Inr \<lparr> ctlId = ''SI-4(2)'', ctlTitle = ''Control SI-4(2)'',
             ctlDescription = ''This is a placeholder for control SI-4(2)'',
             ctlFamily = ''SI'', enhancements = Some [] \<rparr>"
    by (simp add: m f)
  from getControl_synthesized [of "''access control''" True] b
  have 2: "getControl ''access control'' True = Inl (InvalidControlIdFormat ''access control'')"
    by simp
  show ?thesis using a b 1 2 by simp
qed

text \<open>
  The claim as it was stated fails at \<open>ZZ-999\<close>: the identifier is well formed, the
  catalog has no such control and no family \<open>ZZ\<close>, and \<open>getControl\<close> returns a record.
\<close>

theorem getControl_absent_counterexample:
  "parse ''ZZ-999'' = Inr (mkParsed ''ZZ'' 999 None)
   \<and> map_of (controls loadControlCatalog) ''ZZ-999'' = None
   \<and> ''ZZ'' \<notin> set (families loadControlCatalog)
   \<and> getControl ''ZZ-999'' False =
       Inr \<lparr> ctlId = ''ZZ-999'', ctlTitle = ''Control ZZ-999'',
             ctlDescription = ''This is a placeholder for control ZZ-999'',
             ctlFamily = ''ZZ'', enhancements = None \<rparr>"
proof -
  have a: "parse ''ZZ-999'' = Inr (mkParsed ''ZZ'' 999 None)" by code_simp
  have b: "map_of (controls loadControlCatalog) ''ZZ-999'' = None"
    by (simp add: loadControlCatalog_def)
  have c: "''ZZ'' \<notin> set (families loadControlCatalog)"
    by (simp add: loadControlCatalog_def)
  have d: "getControl ''ZZ-999'' False =
       Inr \<lparr> ctlId = ''ZZ-999'', ctlTitle = ''Control ZZ-999'',
             ctlDescription = ''This is a placeholder for control ZZ-999'',
             ctlFamily = ''ZZ'', enhancements = None \<rparr>"
    by code_simp
  show ?thesis using a b c d by simp
qed


subsection \<open>Claim C10\<close>

text \<open>
  Claim C10. A call of \<open>addControlImplementation\<close> that fails leaves the state as it was:
  no record is inserted or replaced and no SSP file is written. It fails, in this order
  of checks, when the SSP does not exist, when the control identifier does not parse
  (with the error of the parser) and when the status is not one of the five known ones
  (with \<open>InvalidImplementationStatus\<close>); so a call with an unknown status or with an
  identifier that does not parse always fails and changes nothing.
\<close>

theorem addControlImplementation_error_atomic:
  "(\<forall>e. fst (addControlImplementation w sid cid st d roles t1 t2) = Inl e
        \<longrightarrow> snd (addControlImplementation w sid cid st d roles t1 t2) = w)
   \<and> (sspFiles w sid = None
        \<longrightarrow> addControlImplementation w sid cid st d roles t1 t2 = (Inl (SSPNotFound sid), w))
   \<and> (\<forall>doc e. sspFiles w sid = Some doc \<and> parse cid = Inl e
        \<longrightarrow> addControlImplementation w sid cid st d roles t1 t2 = (Inl e, w))
   \<and> (\<forall>doc p. sspFiles w sid = Some doc \<and> parse cid = Inr p \<and> st \<notin> set validStatuses
        \<longrightarrow> addControlImplementation w sid cid st d roles t1 t2
              = (Inl (InvalidImplementationStatus st), w))
   \<and> (st \<notin> set validStatuses \<or> canonicalOf cid = None
        \<longrightarrow> (\<exists>e. addControlImplementation w sid cid st d roles t1 t2 = (Inl e, w)))"
proof (intro conjI allI impI)
  fix e
  assume "fst (addControlImplementation w sid cid st d roles t1 t2) = Inl e"
  then show "snd (addControlImplementation w sid cid st d roles t1 t2) = w"
    by (rule addControlImplementation_error_unchanged)
next
  assume "sspFiles w sid = None"
  then show "addControlImplementation w sid cid st d roles t1 t2 = (Inl (SSPNotFound sid), w)"
    by (rule addControlImplementation_no_doc)
next
  fix doc e
  assume "sspFiles w sid = Some doc \<and> parse cid = Inl e"
  then show "addControlImplementation w sid cid st d roles t1 t2 = (Inl e, w)"
    by (simp add: addControlImplementation_bad_id)
next
  fix doc p
  assume "sspFiles w sid = Some doc \<and> parse cid = Inr p \<and> st \<notin> set validStatuses"
  then show "addControlImplementation w sid cid st d roles t1 t2
              = (Inl (InvalidImplementationStatus st), w)"
    by (simp add: addControlImplementation_bad_status)
next
  assume a: "st \<notin> set validStatuses \<or> canonicalOf cid = None"
  show "\<exists>e. addControlImplementation w sid cid st d roles t1 t2 = (Inl e, w)"
  proof (cases rule: addControlImplementation_cases [where w = w and sid = sid and cid = cid and st = st])
    case no_doc
    then show ?thesis by (simp add: addControlImplementation_no_doc)
  next
    case (bad_id doc e)
    then show ?thesis by (simp add: addControlImplementation_bad_id)
  next
    case (bad_status doc p)
    then show ?thesis by (simp add: addControlImplementation_bad_status)
  next
    case (ok doc p)
    with a show ?thesis by (simp add: canonicalOf_def)
  qed
qed


theorem addControlImplementation_error_atomic_witness:
  "sspFiles createdWorld ''doc'' = Some sampleDoc
   \<and> parse ''AC-1'' = Inr (mkParsed ''AC'' 1 None)
   \<and> ''DONE'' \<notin> set validStatuses
   \<and> addControlImplementation createdWorld ''doc'' ''AC-1'' ''DONE'' ''d'' None ''t1'' ''t1''
       = (Inl (InvalidImplementationStatus ''DONE''), createdWorld)
   \<and> parse ''AC 2 (1)'' = Inl (InvalidControlIdFormat ''AC 2 (1)'')
   \<and> addControlImplementation createdWorld ''doc'' ''AC 2 (1)'' ''IMPLEMENTED'' ''d'' None
         ''t1'' ''t1''
       = (Inl (InvalidControlIdFormat ''AC 2 (1)''), createdWorld)
   \<and> sspFiles createdWorld ''other'' = None
   \<and> addControlImplementation createdWorld ''other'' ''AC-1'' ''IMPLEMENTED'' ''d'' None
         ''t1'' ''t1''
       = (Inl (SSPNotFound ''other''), createdWorld)"
proof -
  have n: "sspFiles createdWorld ''other'' = None"
    by (simp add: createdWorld_def sampleWorldLoaded_def sampleWorld_def)
  have b: "parse ''AC 2 (1)'' = Inl (InvalidControlIdFormat ''AC 2 (1)'')" by code_simp
  note t1 = addControlImplementation_error_atomic [of createdWorld "''doc''" "''AC-1''" "''DONE''"
      "''d''" None "''t1''" "''t1''"]
  note t2 = addControlImplementation_error_atomic [of createdWorld "''doc''" "''AC 2 (1)''"
      "''IMPLEMENTED''" "''d''" None "''t1''" "''t1''"]
  note t3 = addControlImplementation_error_atomic [of createdWorld "''other''" "''AC-1''"
      "''IMPLEMENTED''" "''d''" None "''t1''" "''t1''"]
  have 1: "addControlImplementation createdWorld ''doc'' ''AC-1'' ''DONE'' ''d'' None ''t1'' ''t1''
       = (Inl (InvalidImplementationStatus ''DONE''), createdWorld)"
    using t1 createdWorld_doc parse_samples(4) valid_status_samples(3) by blast
  have 2: "addControlImplementation createdWorld ''doc'' ''AC 2 (1)'' ''IMPLEMENTED'' ''d'' None
         ''t1'' ''t1''
       = (Inl (InvalidControlIdFormat ''AC 2 (1)''), createdWorld)"
    using t2 createdWorld_doc b by blast
  have 3: "addControlImplementation createdWorld ''other'' ''AC-1'' ''IMPLEMENTED'' ''d'' None
         ''t1'' ''t1''
       = (Inl (SSPNotFound ''other''), createdWorld)"
    using t3 n by blast
  show ?thesis
    using 1 2 3 n b createdWorld_doc parse_samples(4) valid_status_samples(3) by blast
qed


end
